theory Spec2Isabelle
  imports Complex_Main
begin

section \<open>float64\<close>

text \<open>
  Go's \<open>float64\<close> is modelled with its special values: a finite value carries a real
  number, and the two infinities and NaN are values of their own. Arithmetic on finite
  values is exact (rounding and overflow to infinity are not modelled, and the two signed
  zeros are one value, the positive zero); a division by zero, an invalid operation and
  every comparison with NaN behave as IEEE 754 and Go define them: \<open>x / 0\<close> is an
  infinity or NaN and never a run-time panic.
\<close>

datatype float64 = Fin real | PInf | NInf | NaN

definition inf_of_sign :: "real \<Rightarrow> float64" where
  "inf_of_sign s = (if 0 < s then PInf else if s < 0 then NInf else NaN)"

fun fneg :: "float64 \<Rightarrow> float64" where
  "fneg (Fin a) = Fin (- a)"
| "fneg PInf = NInf"
| "fneg NInf = PInf"
| "fneg NaN = NaN"

fun fadd :: "float64 \<Rightarrow> float64 \<Rightarrow> float64" where
  "fadd (Fin a) (Fin b) = Fin (a + b)"
| "fadd (Fin a) PInf = PInf"
| "fadd (Fin a) NInf = NInf"
| "fadd PInf (Fin b) = PInf"
| "fadd PInf PInf = PInf"
| "fadd PInf NInf = NaN"
| "fadd NInf (Fin b) = NInf"
| "fadd NInf NInf = NInf"
| "fadd NInf PInf = NaN"
| "fadd NaN y = NaN"
| "fadd x NaN = NaN"

definition fsub :: "float64 \<Rightarrow> float64 \<Rightarrow> float64" where
  "fsub x y = fadd x (fneg y)"

fun fmul :: "float64 \<Rightarrow> float64 \<Rightarrow> float64" where
  "fmul (Fin a) (Fin b) = Fin (a * b)"
| "fmul (Fin a) PInf = inf_of_sign a"
| "fmul (Fin a) NInf = inf_of_sign (- a)"
| "fmul PInf (Fin b) = inf_of_sign b"
| "fmul NInf (Fin b) = inf_of_sign (- b)"
| "fmul PInf PInf = PInf"
| "fmul PInf NInf = NInf"
| "fmul NInf PInf = NInf"
| "fmul NInf NInf = PInf"
| "fmul NaN y = NaN"
| "fmul x NaN = NaN"

fun fdiv :: "float64 \<Rightarrow> float64 \<Rightarrow> float64" where
  "fdiv (Fin a) (Fin b) = (if b = 0 then inf_of_sign a else Fin (a / b))"
| "fdiv (Fin a) PInf = Fin 0"
| "fdiv (Fin a) NInf = Fin 0"
| "fdiv PInf (Fin b) = (if b < 0 then NInf else PInf)"
| "fdiv NInf (Fin b) = (if b < 0 then PInf else NInf)"
| "fdiv PInf PInf = NaN"
| "fdiv PInf NInf = NaN"
| "fdiv NInf PInf = NaN"
| "fdiv NInf NInf = NaN"
| "fdiv NaN y = NaN"
| "fdiv x NaN = NaN"

text \<open>\<open>math.Sqrt\<close> and \<open>math.Abs\<close>.\<close>

fun fsqrt :: "float64 \<Rightarrow> float64" where
  "fsqrt (Fin a) = (if a < 0 then NaN else Fin (sqrt a))"
| "fsqrt PInf = PInf"
| "fsqrt NInf = NaN"
| "fsqrt NaN = NaN"

fun fabs :: "float64 \<Rightarrow> float64" where
  "fabs (Fin a) = Fin \<bar>a\<bar>"
| "fabs PInf = PInf"
| "fabs NInf = PInf"
| "fabs NaN = NaN"

text \<open>The comparisons \<open><\<close> and \<open><=\<close>; \<open>x > y\<close> is \<open>flt y x\<close> and \<open>x >= y\<close> is \<open>fle y x\<close>.\<close>

fun flt :: "float64 \<Rightarrow> float64 \<Rightarrow> bool" where
  "flt (Fin a) (Fin b) = (a < b)"
| "flt (Fin a) PInf = True"
| "flt (Fin a) NInf = False"
| "flt PInf y = False"
| "flt NInf (Fin b) = True"
| "flt NInf PInf = True"
| "flt NInf NInf = False"
| "flt NaN y = False"
| "flt x NaN = False"

fun fle :: "float64 \<Rightarrow> float64 \<Rightarrow> bool" where
  "fle (Fin a) (Fin b) = (a \<le> b)"
| "fle (Fin a) PInf = True"
| "fle (Fin a) NInf = False"
| "fle PInf PInf = True"
| "fle PInf (Fin b) = False"
| "fle PInf NInf = False"
| "fle NInf (Fin b) = True"
| "fle NInf PInf = True"
| "fle NInf NInf = True"
| "fle NaN y = False"
| "fle x NaN = False"

definition fgt :: "float64 \<Rightarrow> float64 \<Rightarrow> bool" where
  "fgt x y = flt y x"

definition fge :: "float64 \<Rightarrow> float64 \<Rightarrow> bool" where
  "fge x y = fle y x"

fun isFin :: "float64 \<Rightarrow> bool" where
  "isFin (Fin a) = True"
| "isFin PInf = False"
| "isFin NInf = False"
| "isFin NaN = False"

section \<open>package geometry: vectors and rays\<close>

record Vector =
  X :: float64
  Y :: float64
  Z :: float64

definition Vector_Add :: "Vector \<Rightarrow> Vector \<Rightarrow> Vector" where
  "Vector_Add v w = \<lparr>X = fadd (X v) (X w), Y = fadd (Y v) (Y w), Z = fadd (Z v) (Z w)\<rparr>"

definition Vector_Subtract :: "Vector \<Rightarrow> Vector \<Rightarrow> Vector" where
  "Vector_Subtract v w = \<lparr>X = fsub (X v) (X w), Y = fsub (Y v) (Y w), Z = fsub (Z v) (Z w)\<rparr>"

definition Vector_Scale :: "Vector \<Rightarrow> float64 \<Rightarrow> Vector" where
  "Vector_Scale v s = \<lparr>X = fmul (X v) s, Y = fmul (Y v) s, Z = fmul (Z v) s\<rparr>"

definition Dot :: "Vector \<Rightarrow> Vector \<Rightarrow> float64" where
  "Dot v w = fadd (fadd (fmul (X v) (X w)) (fmul (Y v) (Y w))) (fmul (Z v) (Z w))"

definition Cross :: "Vector \<Rightarrow> Vector \<Rightarrow> Vector" where
  "Cross v w =
     \<lparr>X = fsub (fmul (Y v) (Z w)) (fmul (Z v) (Y w)),
      Y = fsub (fmul (Z v) (X w)) (fmul (X v) (Z w)),
      Z = fsub (fmul (X v) (Y w)) (fmul (Y v) (X w))\<rparr>"

definition Vector_Length :: "Vector \<Rightarrow> float64" where
  "Vector_Length v =
     fsqrt (fadd (fadd (fmul (X v) (X v)) (fmul (Y v) (Y v))) (fmul (Z v) (Z v)))"

definition Normalize :: "Vector \<Rightarrow> Vector" where
  "Normalize v =
     (let len = Vector_Length v
      in \<lparr>X = fdiv (X v) len, Y = fdiv (Y v) len, Z = fdiv (Z v) len\<rparr>)"

record Ray =
  Origin :: Vector
  Direction :: Vector

definition At :: "Ray \<Rightarrow> float64 \<Rightarrow> Vector" where
  "At r t = Vector_Add (Origin r) (Vector_Scale (Direction r) t)"

section \<open>package material: colours and materials\<close>

record Color =
  R :: float64
  G :: float64
  B :: float64

record Material =
  Color :: Color
  Reflectivity :: float64
  Transparency :: float64
  RefractiveIndex :: float64
  AmbientCoefficient :: float64
  DiffuseCoefficient :: float64
  SpecularCoefficient :: float64
  Shininess :: float64

section \<open>package geometry: the shapes\<close>

record Sphere =
  Center :: Vector
  Radius :: float64
  Mat :: Material

record Plane =
  Point :: Vector
  Normal :: Vector
  Mat :: Material

record Triangle =
  V0 :: Vector
  V1 :: Vector
  V2 :: Vector
  Mat :: Material

record Cylinder =
  Center :: Vector
  Radius :: float64
  Mat :: Material

record Cube =
  Center :: Vector
  Length :: float64
  Mat :: Material

text \<open>
  The interface \<open>Object\<close> has five implementations; a value of the interface is one of
  them.
\<close>

datatype Object =
  ObjSphere Sphere
| ObjPlane Plane
| ObjTriangle Triangle
| ObjCylinder Cylinder
| ObjCube Cube

fun Object_Material :: "Object \<Rightarrow> Material" where
  "Object_Material (ObjSphere s) = Sphere.Mat s"
| "Object_Material (ObjPlane p) = Plane.Mat p"
| "Object_Material (ObjTriangle t) = Triangle.Mat t"
| "Object_Material (ObjCylinder c) = Cylinder.Mat c"
| "Object_Material (ObjCube c) = Cube.Mat c"

record Hit =
  Position :: Vector
  Normal :: Vector
  T :: float64
  Object :: Object

text \<open>A \<open>*Hit\<close> that is \<open>nil\<close> is \<open>None\<close>.\<close>

definition Sphere_Intersect :: "Sphere \<Rightarrow> Ray \<Rightarrow> Hit option" where
  "Sphere_Intersect s ray =
     (let oc = Vector_Subtract (Origin ray) (Sphere.Center s);
          a = Dot (Direction ray) (Direction ray);
          b = fmul (Fin 2) (Dot oc (Direction ray));
          c = fsub (Dot oc oc) (fmul (Sphere.Radius s) (Sphere.Radius s));
          discriminant = fsub (fmul b b) (fmul (fmul (Fin 4) a) c)
      in if flt discriminant (Fin 0) then None
         else
           (let t = fdiv (fsub (fneg b) (fsqrt discriminant)) (fmul (Fin 2) a);
                position = At ray t;
                normal = Normalize (Vector_Subtract position (Sphere.Center s))
            in Some \<lparr>Position = position, Hit.Normal = normal, T = t, Object = ObjSphere s\<rparr>))"

definition Plane_Intersect :: "Plane \<Rightarrow> Ray \<Rightarrow> Hit option" where
  "Plane_Intersect p ray =
     (let denom = Dot (Plane.Normal p) (Direction ray)
      in if fgt (fabs denom) (Fin (1 / 10000)) then
           (let t = fdiv (Dot (Vector_Subtract (Point p) (Origin ray)) (Plane.Normal p)) denom
            in if fge t (Fin 0) then
                 (let position = At ray t
                  in Some \<lparr>Position = position, Hit.Normal = Plane.Normal p, T = t,
                           Object = ObjPlane p\<rparr>)
               else None)
         else None)"

definition Triangle_Intersect :: "Triangle \<Rightarrow> Ray \<Rightarrow> Hit option" where
  "Triangle_Intersect t ray =
     (let edge1 = Vector_Subtract (V1 t) (V0 t);
          edge2 = Vector_Subtract (V2 t) (V0 t);
          h = Cross (Direction ray) edge2;
          a = Dot edge1 h
      in if flt (fabs a) (Fin (1 / 10000)) then None
         else
           (let f = fdiv (Fin 1) a;
                s = Vector_Subtract (Origin ray) (V0 t);
                u = fmul f (Dot s h)
            in if flt u (Fin 0) \<or> fgt u (Fin 1) then None
               else
                 (let q = Cross s edge1;
                      v = fmul f (Dot (Direction ray) q)
                  in if flt v (Fin 0) \<or> fgt (fadd u v) (Fin 1) then None
                     else
                       (let tt = fmul f (Dot edge2 q)
                        in if fgt tt (Fin (1 / 10000)) then
                             (let position = At ray tt;
                                  normal = Normalize (Cross edge1 edge2)
                              in Some \<lparr>Position = position, Hit.Normal = normal, T = tt,
                                       Object = ObjTriangle t\<rparr>)
                           else None))))"

definition Cylinder_Intersect :: "Cylinder \<Rightarrow> Ray \<Rightarrow> Hit option" where
  "Cylinder_Intersect c ray =
     (let oc = (Vector_Subtract (Origin ray) (Cylinder.Center c))\<lparr>Y := Fin 0\<rparr>;
          a = fadd (fmul (X (Direction ray)) (X (Direction ray)))
                   (fmul (Z (Direction ray)) (Z (Direction ray)));
          b = fmul (Fin 2) (Dot oc (Direction ray));
          cval = fsub (Dot oc oc) (fmul (Cylinder.Radius c) (Cylinder.Radius c));
          discriminant = fsub (fmul b b) (fmul (fmul (Fin 4) a) cval)
      in if flt discriminant (Fin 0) then None
         else
           (let t = fdiv (fsub (fneg b) (fsqrt discriminant)) (fmul (Fin 2) a);
                position = At ray t;
                normal = Normalize ((Vector_Subtract position (Cylinder.Center c))\<lparr>Y := Fin 0\<rparr>)
            in Some \<lparr>Position = position, Hit.Normal = normal, T = t, Object = ObjCylinder c\<rparr>))"

text \<open>
  \<open>Cube.Intersect\<close> and \<open>Cube.NormalAt\<close> both start from the two corners
  \<open>min\<close> and \<open>max\<close> of the cube.
\<close>

definition Cube_min :: "Cube \<Rightarrow> Vector" where
  "Cube_min cube =
     Vector_Subtract (Cube.Center cube)
       \<lparr>X = fdiv (Length cube) (Fin 2), Y = fdiv (Length cube) (Fin 2),
        Z = fdiv (Length cube) (Fin 2)\<rparr>"

definition Cube_max :: "Cube \<Rightarrow> Vector" where
  "Cube_max cube =
     Vector_Add (Cube.Center cube)
       \<lparr>X = fdiv (Length cube) (Fin 2), Y = fdiv (Length cube) (Fin 2),
        Z = fdiv (Length cube) (Fin 2)\<rparr>"

definition normals :: "Vector list" where
  "normals =
     [\<lparr>X = Fin (- 1), Y = Fin 0, Z = Fin 0\<rparr>,
      \<lparr>X = Fin 1, Y = Fin 0, Z = Fin 0\<rparr>,
      \<lparr>X = Fin 0, Y = Fin (- 1), Z = Fin 0\<rparr>,
      \<lparr>X = Fin 0, Y = Fin 1, Z = Fin 0\<rparr>,
      \<lparr>X = Fin 0, Y = Fin 0, Z = Fin (- 1)\<rparr>,
      \<lparr>X = Fin 0, Y = Fin 0, Z = Fin 1\<rparr>]"

definition sides :: "Cube \<Rightarrow> Vector \<Rightarrow> float64 list" where
  "sides cube point =
     [fabs (fsub (X (Cube_min cube)) (X point)),
      fabs (fsub (X (Cube_max cube)) (X point)),
      fabs (fsub (Y (Cube_min cube)) (Y point)),
      fabs (fsub (Y (Cube_max cube)) (Y point)),
      fabs (fsub (Z (Cube_min cube)) (Z point)),
      fabs (fsub (Z (Cube_max cube)) (Z point))]"

text \<open>
  The loop \<open>for i := 1; i < len(sides); i++\<close>: \<open>minIndex_loop ss i minIndex minValue\<close>
  runs it over the entries \<open>ss\<close> that are left, the first of them at index \<open>i\<close>. It
  starts with \<open>minIndex = 0\<close> and \<open>minValue = sides[0]\<close>; the lists \<open>sides\<close> and
  \<open>normals\<close> have six entries each.
\<close>

fun minIndex_loop :: "float64 list \<Rightarrow> nat \<Rightarrow> nat \<Rightarrow> float64 \<Rightarrow> nat" where
  "minIndex_loop [] i minIndex minValue = minIndex"
| "minIndex_loop (s # ss) i minIndex minValue =
     (if flt s minValue then minIndex_loop ss (Suc i) i s
      else minIndex_loop ss (Suc i) minIndex minValue)"

definition NormalAt :: "Cube \<Rightarrow> Vector \<Rightarrow> Vector" where
  "NormalAt cube point =
     (let sides = sides cube point
      in normals ! minIndex_loop (drop 1 sides) 1 0 (sides ! 0))"

text \<open>
  The last three statements of \<open>Cube.Intersect\<close>, which build the hit at the chosen
  \<open>t\<close>.
\<close>

definition Cube_hit :: "Cube \<Rightarrow> Ray \<Rightarrow> float64 \<Rightarrow> Hit" where
  "Cube_hit cube ray t =
     (let position = At ray t;
          normal = NormalAt cube position
      in \<lparr>Position = position, Hit.Normal = normal, T = t, Object = ObjCube cube\<rparr>)"

text \<open>
  In \<open>Cube.Intersect\<close> the variable \<open>t\<close> starts as \<open>tmin\<close> and becomes \<open>tmax\<close>
  when \<open>tmin\<close> is below zero; the numbered names are the successive values of the
  variables \<open>tmin\<close> and \<open>tmax\<close>.
\<close>

definition Cube_Intersect :: "Cube \<Rightarrow> Ray \<Rightarrow> Hit option" where
  "Cube_Intersect cube ray =
     (let tmin0 = fdiv (fsub (X (Cube_min cube)) (X (Origin ray))) (X (Direction ray));
          tmax0 = fdiv (fsub (X (Cube_max cube)) (X (Origin ray))) (X (Direction ray));
          (tmin1, tmax1) = (if fgt tmin0 tmax0 then (tmax0, tmin0) else (tmin0, tmax0));
          tymin0 = fdiv (fsub (Y (Cube_min cube)) (Y (Origin ray))) (Y (Direction ray));
          tymax0 = fdiv (fsub (Y (Cube_max cube)) (Y (Origin ray))) (Y (Direction ray));
          (tymin, tymax) = (if fgt tymin0 tymax0 then (tymax0, tymin0) else (tymin0, tymax0))
      in if fgt tmin1 tymax \<or> fgt tymin tmax1 then None
         else
           (let tmin2 = (if fgt tymin tmin1 then tymin else tmin1);
                tmax2 = (if flt tymax tmax1 then tymax else tmax1);
                tzmin0 = fdiv (fsub (Z (Cube_min cube)) (Z (Origin ray))) (Z (Direction ray));
                tzmax0 = fdiv (fsub (Z (Cube_max cube)) (Z (Origin ray))) (Z (Direction ray));
                (tzmin, tzmax) = (if fgt tzmin0 tzmax0 then (tzmax0, tzmin0) else (tzmin0, tzmax0))
            in if fgt tmin2 tzmax \<or> fgt tzmin tmax2 then None
               else
                 (let tmin = (if fgt tzmin tmin2 then tzmin else tmin2);
                      tmax = (if flt tzmax tmax2 then tzmax else tmax2)
                  in if flt tmin (Fin 0) then
                       (if flt tmax (Fin 0) then None else Some (Cube_hit cube ray tmax))
                     else Some (Cube_hit cube ray tmin))))"

text \<open>The method call \<open>object.Intersect(ray)\<close> on a value of the interface.\<close>

fun Intersect :: "Object \<Rightarrow> Ray \<Rightarrow> Hit option" where
  "Intersect (ObjSphere s) ray = Sphere_Intersect s ray"
| "Intersect (ObjPlane p) ray = Plane_Intersect p ray"
| "Intersect (ObjTriangle t) ray = Triangle_Intersect t ray"
| "Intersect (ObjCylinder c) ray = Cylinder_Intersect c ray"
| "Intersect (ObjCube c) ray = Cube_Intersect c ray"

section \<open>package utility\<close>

definition Reflect :: "Vector \<Rightarrow> Vector \<Rightarrow> Vector" where
  "Reflect v n = Vector_Subtract v (Vector_Scale n (fmul (Fin 2) (Dot v n)))"

text \<open>
  \<open>Refract\<close> returns a \<open>*Vector\<close> and the flag of total internal reflection; the
  vector is \<open>nil\<close> (here \<open>None\<close>) when the flag is set.
\<close>

definition Refract_discriminant :: "Vector \<Rightarrow> Vector \<Rightarrow> float64 \<Rightarrow> float64" where
  "Refract_discriminant v n refractiveIndex =
     (let dt = Dot v n
      in fsub (Fin 1)
           (fmul (fmul refractiveIndex refractiveIndex) (fsub (Fin 1) (fmul dt dt))))"

definition Refract :: "Vector \<Rightarrow> Vector \<Rightarrow> float64 \<Rightarrow> Vector option \<times> bool" where
  "Refract v n refractiveIndex =
     (let dt = Dot v n;
          discriminant = Refract_discriminant v n refractiveIndex
      in if fgt discriminant (Fin 0) then
           (Some (Vector_Subtract (Vector_Scale v refractiveIndex)
                    (Vector_Scale n (fadd (fmul refractiveIndex dt) (fsqrt discriminant)))),
            False)
         else (None, True))"

section \<open>package material: shading\<close>

text \<open>
  Modelled from the spec: the methods \<open>Color.Add\<close> and \<open>Color.Scale\<close>, the type
  \<open>Light\<close> and the methods \<open>Vector.Negate\<close> and \<open>Vector.Reflect\<close> are used by the
  source and declared nowhere in it. A colour is an RGB triple that is accumulated and
  scaled component by component; a light is a position and a colour; the reflection of
  a vector about a normal is the mirror reflection that \<open>utility.Reflect\<close> computes.
\<close>

definition Color_Add :: "Color \<Rightarrow> Color \<Rightarrow> Color" where
  "Color_Add c d = \<lparr>R = fadd (R c) (R d), G = fadd (G c) (G d), B = fadd (B c) (B d)\<rparr>"

definition Color_Scale :: "Color \<Rightarrow> float64 \<Rightarrow> Color" where
  "Color_Scale c s = \<lparr>R = fmul (R c) s, G = fmul (G c) s, B = fmul (B c) s\<rparr>"

record Light =
  Position :: Vector
  Color :: Color

definition Negate :: "Vector \<Rightarrow> Vector" where
  "Negate v = \<lparr>X = fneg (X v), Y = fneg (Y v), Z = fneg (Z v)\<rparr>"

definition Vector_Reflect :: "Vector \<Rightarrow> Vector \<Rightarrow> Vector" where
  "Vector_Reflect v n = Reflect v n"

text \<open>The functions \<open>min\<close> and \<open>max\<close> of material.go.\<close>

definition material_min :: "float64 \<Rightarrow> float64 \<Rightarrow> float64" where
  "material_min a b = (if flt a b then a else b)"

definition material_max :: "float64 \<Rightarrow> float64 \<Rightarrow> float64" where
  "material_max a b = (if fgt a b then a else b)"

text \<open>
  What the program takes from outside the repository, or leaves open, is a parameter:
  \<open>Pow\<close> is the library function \<open>math.Pow\<close>; \<open>PerIteration\<close> says whether a
  \<open>for ... range\<close> loop has one variable for each iteration (the language from Go 1.22
  on) or one variable for the whole loop (every earlier version); \<open>Inside0\<close> is the
  third argument of \<open>traceRay\<close>, which the call in \<open>Render\<close> leaves out.
\<close>

record Env =
  Pow :: "float64 \<Rightarrow> float64 \<Rightarrow> float64"
  PerIteration :: bool
  Inside0 :: bool

text \<open>
  Modelled from the spec: the type \<open>geometry.Camera\<close> and its method \<open>GetRay\<close> are
  not in the source. A camera maps a screen coordinate \<open>(u, v)\<close> to a ray, or fails
  with an error.
\<close>

datatype error = Error string

record Camera =
  GetRay :: "float64 \<Rightarrow> float64 \<Rightarrow> error + Ray"

record Scene =
  Objects :: "Object list"
  Lights :: "Light list"
  Camera :: Camera

text \<open>The body of the loop over the lights, which yields \<open>lightContribution\<close>.\<close>

definition lightContribution :: "Env \<Rightarrow> Material \<Rightarrow> Hit \<Rightarrow> Ray \<Rightarrow> Light \<Rightarrow> Color" where
  "lightContribution env m hit ray light =
     (let lightDirection0 = Vector_Subtract (Light.Position light) (Hit.Position hit);
          distance = Vector_Length lightDirection0;
          lightDirection = Normalize lightDirection0;
          attenuation = fdiv (Fin 1) (fadd (Fin 1) (fmul (Fin (1 / 10)) distance));
          diffuse = Color_Scale (Material.Color m)
                      (fmul (DiffuseCoefficient m)
                         (material_max (Fin 0) (Dot (Hit.Normal hit) lightDirection)));
          reflectDirection = Vector_Reflect (Negate lightDirection) (Hit.Normal hit);
          viewDirection = Negate (Direction ray);
          specular = Color_Scale (Light.Color light)
                       (fmul (SpecularCoefficient m)
                          (Pow env (material_max (Fin 0) (Dot viewDirection reflectDirection))
                             (Shininess m)))
      in Color_Scale (Color_Add diffuse specular) attenuation)"

fun ComputeColor_loop :: "Env \<Rightarrow> Material \<Rightarrow> Hit \<Rightarrow> Ray \<Rightarrow> Light list \<Rightarrow> Color \<Rightarrow> Color" where
  "ComputeColor_loop env m hit ray [] color = color"
| "ComputeColor_loop env m hit ray (light # lights) color =
     ComputeColor_loop env m hit ray lights
       (Color_Add color (lightContribution env m hit ray light))"

definition ComputeColor :: "Env \<Rightarrow> Material \<Rightarrow> Hit \<Rightarrow> Scene \<Rightarrow> Ray \<Rightarrow> Color" where
  "ComputeColor env m hit s ray =
     (let color = ComputeColor_loop env m hit ray (Lights s)
                    (Color_Scale (Material.Color m) (AmbientCoefficient m))
      in \<lparr>R = material_min (Fin 1) (R color), G = material_min (Fin 1) (G color),
          B = material_min (Fin 1) (B color)\<rparr>)"

section \<open>package scene\<close>

text \<open>
  \<open>FindClosestIntersection\<close> keeps three variables and returns two pointers. The second
  pointer is \<open>&object\<close>, the address of the variable of the \<open>range\<close> loop, so the
  model has a store for the loop variables: address \<open>loopvar_addr env i\<close> is the variable
  that iteration \<open>i\<close> assigns the element to. With one variable for each iteration the
  addresses differ; with one variable for the loop every iteration writes address 0.
\<close>

record Closest =
  closestHit :: "Hit option"
  closestObject :: "nat option"
  closestDistance :: float64
  store :: "nat \<Rightarrow> Object option"

definition loopvar_addr :: "Env \<Rightarrow> nat \<Rightarrow> nat" where
  "loopvar_addr env i = (if PerIteration env then i else 0)"

fun FindClosest_loop :: "Env \<Rightarrow> Ray \<Rightarrow> Object list \<Rightarrow> nat \<Rightarrow> Closest \<Rightarrow> Closest" where
  "FindClosest_loop env ray [] i st = st"
| "FindClosest_loop env ray (object # rest) i st =
     (let a = loopvar_addr env i;
          st1 = st\<lparr>store := (store st)(a \<mapsto> object)\<rparr>
      in FindClosest_loop env ray rest (Suc i)
           (case Intersect object ray of
              None \<Rightarrow> st1
            | Some hit \<Rightarrow>
                if flt (T hit) (closestDistance st1)
                then st1\<lparr>closestHit := Some hit, closestObject := Some a,
                         closestDistance := T hit\<rparr>
                else st1))"

text \<open>
  The result is the hit and the object that the returned pointer refers to when the
  function returns.
\<close>

definition FindClosestIntersection :: "Env \<Rightarrow> Scene \<Rightarrow> Ray \<Rightarrow> Hit option \<times> Object option" where
  "FindClosestIntersection env s ray =
     (let st = FindClosest_loop env ray (Objects s) 0
                 \<lparr>closestHit = None, closestObject = None, closestDistance = PInf,
                  store = Map.empty\<rparr>
      in (closestHit st, case closestObject st of None \<Rightarrow> None | Some a \<Rightarrow> store st a))"

section \<open>package raytracer\<close>

text \<open>
  Modelled from the spec: the methods \<open>Ray.Reflect\<close> and \<open>Ray.Refract\<close> are called by
  \<open>traceRay\<close> and declared nowhere in the source. The reflected ray starts at the hit
  point and runs along the mirror reflection of the incoming direction about the surface
  normal. The refracted ray follows Snell's law through the refractive index, unless
  total internal reflection occurs (the discriminant of the refraction formula is not
  positive), in which case the ray is the internal reflection; the flag says which.
  The directions are those of \<open>utility.Reflect\<close> and \<open>utility.Refract\<close>. The source
  passes the normal only; the hit point that the spec names is passed here as well.
\<close>

definition Ray_Reflect :: "Vector \<Rightarrow> Ray \<Rightarrow> Vector \<Rightarrow> Ray" where
  "Ray_Reflect hitPoint ray normal =
     \<lparr>Origin = hitPoint, Direction = Reflect (Direction ray) normal\<rparr>"

definition Ray_Refract :: "Vector \<Rightarrow> Ray \<Rightarrow> Vector \<Rightarrow> float64 \<Rightarrow> bool \<Rightarrow> Ray \<times> bool" where
  "Ray_Refract hitPoint ray normal refractiveIndex inside =
     (case Refract (Direction ray) normal refractiveIndex of
        (Some refracted, totalInternalReflection) \<Rightarrow>
          (\<lparr>Origin = hitPoint, Direction = refracted\<rparr>, totalInternalReflection)
      | (None, totalInternalReflection) \<Rightarrow>
          (Ray_Reflect hitPoint ray normal, totalInternalReflection))"

record Raytracer =
  Scene :: Scene
  Width :: int
  Height :: int
  MaxDepth :: int
  Samples :: int

definition black :: Color where
  "black = \<lparr>R = Fin 0, G = Fin 0, B = Fin 0\<rparr>"

text \<open>
  \<open>traceRay\<close> reads the receiver for its scene only. When \<open>FindClosestIntersection\<close>
  returns a hit it returns an object too (lemma \<open>FindClosestIntersection_object\<close>
  below), so the third case, a \<open>nil\<close> object beside a hit, is never reached.
\<close>

function traceRay :: "Env \<Rightarrow> Scene \<Rightarrow> Ray \<Rightarrow> int \<Rightarrow> bool \<Rightarrow> Color" where
  "traceRay env s ray depth inside =
     (if depth \<le> 0 then black
      else
        (case FindClosestIntersection env s ray of
           (None, object) \<Rightarrow> black
         | (Some hit, None) \<Rightarrow> black
         | (Some hit, Some object) \<Rightarrow>
             (let m = Object_Material object;
                  hitColor0 = ComputeColor env m hit s ray;
                  hitColor1 =
                    (if fgt (Reflectivity m) (Fin 0) then
                       (let reflectionRay = Ray_Reflect (Hit.Position hit) ray (Hit.Normal hit);
                            reflectedColor = traceRay env s reflectionRay (depth - 1) inside
                        in Color_Add hitColor0 (Color_Scale reflectedColor (Reflectivity m)))
                     else hitColor0)
              in if fgt (Transparency m) (Fin 0) then
                   (case Ray_Refract (Hit.Position hit) ray (Hit.Normal hit)
                           (RefractiveIndex m) inside of
                      (refractionRay, totalInternalReflection) \<Rightarrow>
                        if totalInternalReflection then
                          (let reflectedColor = traceRay env s refractionRay (depth - 1) inside
                           in Color_Add hitColor1 (Color_Scale reflectedColor (Transparency m)))
                        else
                          (let refractedColor =
                                 traceRay env s refractionRay (depth - 1) (\<not> inside)
                           in Color_Add hitColor1 (Color_Scale refractedColor (Transparency m))))
                 else hitColor1)))"
  by pat_completeness auto
termination
  by (relation "measure (\<lambda>(env, s, ray, depth, inside). nat depth)") auto

declare traceRay.simps [simp del]

text \<open>
  The value of \<open>hitColor\<close> in \<open>traceRay\<close> after the block for the reflectivity: the
  local colour, with the reflected colour added when the material reflects.
\<close>

definition hitColor_reflected :: "Env \<Rightarrow> Scene \<Rightarrow> Ray \<Rightarrow> int \<Rightarrow> bool \<Rightarrow> Hit \<Rightarrow> Material \<Rightarrow> Color" where
  "hitColor_reflected env s ray depth inside hit m =
     (let hitColor = ComputeColor env m hit s ray
      in if fgt (Reflectivity m) (Fin 0) then
           (let reflectionRay = Ray_Reflect (Hit.Position hit) ray (Hit.Normal hit);
                reflectedColor = traceRay env s reflectionRay (depth - 1) inside
            in Color_Add hitColor (Color_Scale reflectedColor (Reflectivity m)))
         else hitColor)"

text \<open>
  \<open>Render\<close> starts one goroutine for each pixel. The goroutines draw their random
  numbers from the one source of \<open>math/rand\<close>, in the order in which the scheduler runs
  them; \<open>rnd\<close> is the sequence of numbers that the goroutine of one pixel receives.
  \<open>sample_loop\<close> is the loop over the samples with \<open>n\<close> iterations left, \<open>i\<close> numbers
  drawn so far and the colour accumulated so far; it is \<open>None\<close> when the goroutine
  returns from inside the loop.
\<close>

definition float64_of_int :: "int \<Rightarrow> float64" where
  "float64_of_int n = Fin (of_int n)"

fun sample_loop ::
  "Env \<Rightarrow> Raytracer \<Rightarrow> int \<Rightarrow> int \<Rightarrow> (nat \<Rightarrow> float64) \<Rightarrow> nat \<Rightarrow> nat \<Rightarrow> Color \<Rightarrow> Color option"
where
  "sample_loop env r x y rnd 0 i color = Some color"
| "sample_loop env r x y rnd (Suc n) i color =
     (let u = fdiv (fadd (float64_of_int x) (rnd i)) (float64_of_int (Width r - 1));
          v = fdiv (fadd (float64_of_int y) (rnd (i + 1))) (float64_of_int (Height r - 1))
      in case GetRay (Camera (Scene r)) u v of
           Inl err \<Rightarrow> None
         | Inr ray \<Rightarrow>
             (let sampleColor = traceRay env (Scene r) ray (MaxDepth r) (Inside0 env)
              in sample_loop env r x y rnd n (i + 2) (Color_Add color sampleColor)))"

text \<open>
  The goroutine of pixel \<open>(x, y)\<close>: the colour that it hands to \<open>ToRGBA\<close> and
  \<open>img.Set\<close>, or \<open>None\<close> when it returns without setting the pixel, which then keeps
  the zero value that \<open>image.NewRGBA\<close> gave it.
\<close>

definition Render_pixel ::
  "Env \<Rightarrow> Raytracer \<Rightarrow> int \<Rightarrow> int \<Rightarrow> (nat \<Rightarrow> float64) \<Rightarrow> Color option"
where
  "Render_pixel env r x y rnd =
     (case sample_loop env r x y rnd (nat (Samples r)) 0 \<lparr>R = Fin 0, G = Fin 0, B = Fin 0\<rparr> of
        None \<Rightarrow> None
      | Some color \<Rightarrow> Some (Color_Scale color (fdiv (Fin 1) (float64_of_int (Samples r)))))"

section \<open>Concrete inputs\<close>

definition vec :: "real \<Rightarrow> real \<Rightarrow> real \<Rightarrow> Vector" where
  "vec x y z = \<lparr>X = Fin x, Y = Fin y, Z = Fin z\<rparr>"

definition matte :: Material where
  "matte =
     \<lparr>Material.Color = \<lparr>R = Fin 1, G = Fin 1, B = Fin 1\<rparr>, Reflectivity = Fin 0,
      Transparency = Fin 0, RefractiveIndex = Fin 1, AmbientCoefficient = Fin (1 / 2),
      DiffuseCoefficient = Fin (1 / 2), SpecularCoefficient = Fin (1 / 2),
      Shininess = Fin 2\<rparr>"

text \<open>A sphere and a cylinder that lie behind the origin of a ray along the z axis.\<close>

definition behind_sphere :: Sphere where
  "behind_sphere =
     \<lparr>Sphere.Center = vec 0 0 (- 5), Sphere.Radius = Fin 1, Sphere.Mat = matte\<rparr>"

definition behind_cylinder :: Cylinder where
  "behind_cylinder =
     \<lparr>Cylinder.Center = vec 0 0 (- 5), Cylinder.Radius = Fin 1, Cylinder.Mat = matte\<rparr>"

definition forward_ray :: Ray where
  "forward_ray = \<lparr>Origin = vec 0 0 0, Direction = vec 0 0 1\<rparr>"

text \<open>A plane through the origin that faces up the z axis, and a ray that strikes it from below.\<close>

definition floor_plane :: Plane where
  "floor_plane = \<lparr>Point = vec 0 0 0, Plane.Normal = vec 0 0 1, Plane.Mat = matte\<rparr>"

definition back_ray :: Ray where
  "back_ray = \<lparr>Origin = vec 0 0 (- 1), Direction = vec 0 0 1\<rparr>"

text \<open>
  A stand-in for \<open>math.Pow\<close> on finite arguments. No concrete scene below has a light,
  so no evaluation below applies it.
\<close>

definition pow_finite :: "float64 \<Rightarrow> float64 \<Rightarrow> float64" where
  "pow_finite x y =
     (case (x, y) of
        (Fin a, Fin b) \<Rightarrow>
          if b = 0 then Fin 1 else if 0 < a then Fin (a powr b)
          else if a = 0 \<and> 0 < b then Fin 0 else NaN
      | _ \<Rightarrow> NaN)"

text \<open>The language before Go 1.22 (\<open>env_loop\<close>) and from Go 1.22 on (\<open>env_iter\<close>).\<close>

definition env_loop :: Env where
  "env_loop = \<lparr>Pow = pow_finite, PerIteration = False, Inside0 = False\<rparr>"

definition env_iter :: Env where
  "env_iter = \<lparr>Pow = pow_finite, PerIteration = True, Inside0 = False\<rparr>"

text \<open>A camera that looks along the z axis from the point \<open>(u, v, -5)\<close>.\<close>

definition ortho_camera :: Camera where
  "ortho_camera =
     \<lparr>GetRay = (\<lambda>u v. Inr \<lparr>Origin = \<lparr>X = u, Y = v, Z = Fin (- 5)\<rparr>,
                             Direction = vec 0 0 1\<rparr>)\<rparr>"

text \<open>
  Two spheres on the z axis in front of \<open>forward_ray\<close>, the nearer one first in the
  list, and a sphere beside the ray.
\<close>

definition near_sphere :: Sphere where
  "near_sphere = \<lparr>Sphere.Center = vec 0 0 5, Sphere.Radius = Fin 1, Sphere.Mat = matte\<rparr>"

definition far_sphere :: Sphere where
  "far_sphere = \<lparr>Sphere.Center = vec 0 0 10, Sphere.Radius = Fin 1, Sphere.Mat = matte\<rparr>"


definition two_spheres :: Scene where
  "two_spheres =
     \<lparr>Objects = [ObjSphere near_sphere, ObjSphere far_sphere], Lights = [],
      Camera = ortho_camera\<rparr>"


text \<open>
  An infinite cylinder about the y axis with a ray parallel to its axis, and a cube of
  side 2 about the origin with two rays along the z axis: one through the middle of the
  cube, one in the plane \<open>x = -1\<close> of a face.
\<close>

definition axis_cylinder :: Cylinder where
  "axis_cylinder =
     \<lparr>Cylinder.Center = vec 0 0 0, Cylinder.Radius = Fin 1, Cylinder.Mat = matte\<rparr>"

definition up_ray :: Ray where
  "up_ray = \<lparr>Origin = vec 5 0 0, Direction = vec 0 1 0\<rparr>"

definition unit_cube :: Cube where
  "unit_cube = \<lparr>Cube.Center = vec 0 0 0, Length = Fin 2, Cube.Mat = matte\<rparr>"

definition axis_ray :: Ray where
  "axis_ray = \<lparr>Origin = vec 0 0 (- 5), Direction = vec 0 0 1\<rparr>"

definition grazing_ray :: Ray where
  "grazing_ray = \<lparr>Origin = vec (- 1) 0 (- 5), Direction = vec 0 0 1\<rparr>"

text \<open>
  A camera that fails on the left half of the screen, a renderer of 2 by 2 pixels with
  two samples for each pixel, and the random numbers that the goroutine of pixel
  \<open>(0, 0)\<close> receives: the first sample is at \<open>u = 0\<close>, the second at \<open>u = 3/4\<close>.
\<close>

definition half_camera :: Camera where
  "half_camera =
     \<lparr>GetRay = (\<lambda>u v. if flt u (Fin (1 / 2)) then Inl (Error ''invalid projection'')
                      else Inr \<lparr>Origin = \<lparr>X = u, Y = v, Z = Fin (- 5)\<rparr>,
                                Direction = vec 0 0 1\<rparr>)\<rparr>"

definition half_tracer :: Raytracer where
  "half_tracer =
     \<lparr>Scene = \<lparr>Objects = [], Lights = [], Camera = half_camera\<rparr>,
      Width = 2, Height = 2, MaxDepth = 1, Samples = 2\<rparr>"

definition draws :: "nat \<Rightarrow> float64" where
  "draws i = (if i = 2 then Fin (3 / 4) else Fin 0)"

text \<open>
  A transparent plane through the origin with refractive index 2, alone in a scene
  without lights, and a ray that meets it at an angle; \<open>back_ray\<close> meets it head-on.
\<close>

definition glass :: Material where
  "glass =
     \<lparr>Material.Color = \<lparr>R = Fin 1, G = Fin 1, B = Fin 1\<rparr>, Reflectivity = Fin 0,
      Transparency = Fin (1 / 2), RefractiveIndex = Fin 2, AmbientCoefficient = Fin (1 / 2),
      DiffuseCoefficient = Fin (1 / 2), SpecularCoefficient = Fin (1 / 2),
      Shininess = Fin 2\<rparr>"

definition glass_plane :: Plane where
  "glass_plane = \<lparr>Point = vec 0 0 0, Plane.Normal = vec 0 0 1, Plane.Mat = glass\<rparr>"

definition glass_scene :: Scene where
  "glass_scene = \<lparr>Objects = [ObjPlane glass_plane], Lights = [], Camera = ortho_camera\<rparr>"

definition oblique_ray :: Ray where
  "oblique_ray = \<lparr>Origin = vec 0 0 (- 1), Direction = vec (3 / 5) 0 (4 / 5)\<rparr>"





text \<open>
  The slab test in the words of the specification: the entry and exit parameters of the
  three axes, the interval that they have in common, and the distance of a point from
  the plane of the face with a given outward normal. \<open>spec_min\<close> and \<open>spec_max\<close> are the
  least and the greatest of two values.
\<close>

definition spec_min :: "float64 \<Rightarrow> float64 \<Rightarrow> float64" where
  "spec_min a b = (if fle a b then a else b)"

definition spec_max :: "float64 \<Rightarrow> float64 \<Rightarrow> float64" where
  "spec_max a b = (if fle a b then b else a)"

definition slab_t :: "float64 \<Rightarrow> float64 \<Rightarrow> float64 \<Rightarrow> float64" where
  "slab_t plane origin direction = fdiv (fsub plane origin) direction"

definition spec_tmin :: "Cube \<Rightarrow> Ray \<Rightarrow> float64" where
  "spec_tmin cube ray =
     spec_max
       (spec_max
          (spec_min (slab_t (X (Cube_min cube)) (X (Origin ray)) (X (Direction ray)))
                    (slab_t (X (Cube_max cube)) (X (Origin ray)) (X (Direction ray))))
          (spec_min (slab_t (Y (Cube_min cube)) (Y (Origin ray)) (Y (Direction ray)))
                    (slab_t (Y (Cube_max cube)) (Y (Origin ray)) (Y (Direction ray)))))
       (spec_min (slab_t (Z (Cube_min cube)) (Z (Origin ray)) (Z (Direction ray)))
                 (slab_t (Z (Cube_max cube)) (Z (Origin ray)) (Z (Direction ray))))"

definition spec_tmax :: "Cube \<Rightarrow> Ray \<Rightarrow> float64" where
  "spec_tmax cube ray =
     spec_min
       (spec_min
          (spec_max (slab_t (X (Cube_min cube)) (X (Origin ray)) (X (Direction ray)))
                    (slab_t (X (Cube_max cube)) (X (Origin ray)) (X (Direction ray))))
          (spec_max (slab_t (Y (Cube_min cube)) (Y (Origin ray)) (Y (Direction ray)))
                    (slab_t (Y (Cube_max cube)) (Y (Origin ray)) (Y (Direction ray)))))
       (spec_max (slab_t (Z (Cube_min cube)) (Z (Origin ray)) (Z (Direction ray)))
                 (slab_t (Z (Cube_max cube)) (Z (Origin ray)) (Z (Direction ray))))"


text \<open>A vector whose three components are finite.\<close>

definition finite_Vector :: "Vector \<Rightarrow> bool" where
  "finite_Vector v \<longleftrightarrow> isFin (X v) \<and> isFin (Y v) \<and> isFin (Z v)"

text \<open>
  The face with outward normal \<open>n\<close> lies in the plane of the points \<open>q\<close> with
  \<open>n \<cdot> q = n \<cdot> center + length / 2\<close>.
\<close>

definition spec_face_distance :: "Cube \<Rightarrow> Vector \<Rightarrow> Vector \<Rightarrow> float64" where
  "spec_face_distance cube n p =
     fabs (fsub (fadd (Dot n (Cube.Center cube)) (fdiv (Length cube) (Fin 2))) (Dot n p))"

text \<open>A ray that enters the cube of side 2 through the face \<open>x = -1\<close>.\<close>

definition diagonal_ray :: Ray where
  "diagonal_ray = \<lparr>Origin = vec (- 3) (- 2) (- 2), Direction = vec 1 1 1\<rparr>"

text \<open>
  The hits that the objects of a list report, and the two invariants of the loop of
  \<open>FindClosestIntersection\<close>: the hit kept is the closest of the hits \<open>H\<close> seen so far,
  and the pointer kept refers to an object that reported the hit kept.
\<close>

definition hits_of :: "Object list \<Rightarrow> Ray \<Rightarrow> Hit set" where
  "hits_of objects ray = {h. \<exists>object\<in>set objects. Intersect object ray = Some h}"

definition closest_in :: "Closest \<Rightarrow> Hit set \<Rightarrow> bool" where
  "closest_in st H \<longleftrightarrow>
     (closestHit st = None \<longrightarrow> closestDistance st = PInf)
     \<and> (\<forall>h. closestHit st = Some h \<longrightarrow> closestDistance st = T h \<and> h \<in> H)
     \<and> (\<forall>h\<in>H. \<not> flt (T h) (closestDistance st))"

definition points_to_hit :: "Closest \<Rightarrow> Ray \<Rightarrow> nat \<Rightarrow> bool" where
  "points_to_hit st ray i \<longleftrightarrow>
     (\<forall>h. closestHit st = Some h \<longrightarrow>
        (\<exists>a object. closestObject st = Some a \<and> a < i \<and> store st a = Some object
           \<and> Intersect object ray = Some h))"

text \<open>
  The transparent plane at \<open>z = 0\<close> with a matte plane behind it at \<open>z = 5\<close>, the
  transparent plane first in the list, and the ray that \<open>utility.Refract\<close> gives for
  \<open>back_ray\<close> at the transparent plane.
\<close>

definition matte_plane :: Plane where
  "matte_plane = \<lparr>Point = vec 0 0 5, Plane.Normal = vec 0 0 1, Plane.Mat = matte\<rparr>"

definition glass_first :: Scene where
  "glass_first =
     \<lparr>Objects = [ObjPlane glass_plane, ObjPlane matte_plane], Lights = [],
      Camera = ortho_camera\<rparr>"

definition refracted_ray :: Ray where
  "refracted_ray = \<lparr>Origin = vec 0 0 0, Direction = vec 0 0 (- 1)\<rparr>"

section \<open>Theorems\<close>

lemmas vector_defs =
  vec_def Dot_def Cross_def Vector_Add_def Vector_Subtract_def Vector_Scale_def
  Vector_Length_def Normalize_def At_def fsub_def fgt_def fge_def inf_of_sign_def Let_def

subsection \<open>Hits behind the origin of the ray\<close>

text \<open>
  C1. Every shape's \<open>Intersect\<close> is to return no hit when the only intersections lie
  at a negative or near-zero parameter, so that every hit has \<open>t\<close> above the epsilon
  \<open>1e-4\<close>; in particular \<open>Sphere.Intersect\<close> and \<open>Cylinder.Intersect\<close> are never to
  return a hit with a negative \<open>t\<close>. The code of the sphere and of the cylinder takes the
  root \<open>(-b - sqrt(discriminant)) / (2a)\<close> and returns it without looking at its sign:
  for a sphere and a cylinder of radius 1 that lie five units behind the origin of the
  ray, both return a hit with \<open>t = -6\<close>. The plane tests \<open>t >= 0\<close>, not the epsilon:
  for a ray that starts on the plane it returns a hit with \<open>t = 0\<close>.
\<close>

theorem Sphere_Intersect_behind_origin:
  "Sphere_Intersect behind_sphere forward_ray =
     Some \<lparr>Hit.Position = vec 0 0 (- 6), Hit.Normal = vec 0 0 (- 1), T = Fin (- 6),
           Object = ObjSphere behind_sphere\<rparr>
   \<and> Cylinder_Intersect behind_cylinder forward_ray =
     Some \<lparr>Hit.Position = vec 0 0 (- 6), Hit.Normal = vec 0 0 (- 1), T = Fin (- 6),
           Object = ObjCylinder behind_cylinder\<rparr>
   \<and> flt (Fin (- 6)) (Fin 0)
   \<and> Plane_Intersect floor_plane forward_ray =
     Some \<lparr>Hit.Position = vec 0 0 0, Hit.Normal = vec 0 0 1, T = Fin 0,
           Object = ObjPlane floor_plane\<rparr>"
  by (simp add: Sphere_Intersect_def Cylinder_Intersect_def Plane_Intersect_def
      behind_sphere_def behind_cylinder_def floor_plane_def forward_ray_def vector_defs)

subsection \<open>The normal of a plane\<close>

lemma back_ray_hit:
  "Plane_Intersect floor_plane back_ray =
     Some \<lparr>Hit.Position = vec 0 0 0, Hit.Normal = vec 0 0 1, T = Fin 1,
           Object = ObjPlane floor_plane\<rparr>"
  by (simp add: Plane_Intersect_def floor_plane_def back_ray_def vector_defs)

text \<open>
  C10. Whenever \<open>Plane.Intersect\<close> reports a hit, the absolute value of
  \<open>normal \<cdot> direction\<close> is above \<open>1e-4\<close>, \<open>t\<close> is at least zero, and the normal of the
  hit is the \<open>Normal\<close> field of the plane as it is stored: it is not turned towards the
  origin of the ray, so for a ray that strikes the back side
  (\<open>normal \<cdot> direction > 0\<close>) the normal of the hit points away from the ray.
\<close>

theorem Plane_Intersect_normal:
  assumes "Plane_Intersect p ray = Some hit"
  shows "Hit.Normal hit = Plane.Normal p
    \<and> fgt (fabs (Dot (Plane.Normal p) (Direction ray))) (Fin (1 / 10000))
    \<and> fge (T hit) (Fin 0)
    \<and> (fgt (Dot (Plane.Normal p) (Direction ray)) (Fin 0)
         \<longrightarrow> fgt (Dot (Hit.Normal hit) (Direction ray)) (Fin 0))"
  using assms by (auto simp add: Plane_Intersect_def Let_def split: if_splits)

theorem Plane_Intersect_normal_witness:
  "Plane_Intersect floor_plane back_ray =
     Some \<lparr>Hit.Position = vec 0 0 0, Hit.Normal = vec 0 0 1, T = Fin 1,
           Object = ObjPlane floor_plane\<rparr>
   \<and> fgt (Dot (Plane.Normal floor_plane) (Direction back_ray)) (Fin 0)
   \<and> fgt (Dot (vec 0 0 1) (Direction back_ray)) (Fin 0)"
  using Plane_Intersect_normal [OF back_ray_hit]
  by (simp add: back_ray_hit) (simp add: floor_plane_def back_ray_def vector_defs)

subsection \<open>The closest intersection\<close>

lemma near_sphere_hit:
  "Sphere_Intersect near_sphere forward_ray =
     Some \<lparr>Hit.Position = vec 0 0 4, Hit.Normal = vec 0 0 (- 1), T = Fin 4,
           Object = ObjSphere near_sphere\<rparr>"
  by (simp add: Sphere_Intersect_def near_sphere_def forward_ray_def vector_defs)

lemma far_sphere_hit:
  "Sphere_Intersect far_sphere forward_ray =
     Some \<lparr>Hit.Position = vec 0 0 9, Hit.Normal = vec 0 0 (- 1), T = Fin 9,
           Object = ObjSphere far_sphere\<rparr>"
  by (simp add: Sphere_Intersect_def far_sphere_def forward_ray_def vector_defs)


text \<open>
  C3. \<open>FindClosestIntersection\<close> is to return the hit with the least \<open>t\<close> together with
  a reference to the shape that produced that hit. The reference it returns is
  \<open>&object\<close>, the address of the loop variable. With one variable for the whole loop
  (Go before 1.22) that variable holds the last element of \<open>s.Objects\<close> when the
  function returns: for the two spheres, the nearer one first, the hit is the hit of the
  nearer sphere at \<open>t = 4\<close> and the object returned beside it is the farther sphere.
\<close>

theorem FindClosestIntersection_last_object:
  "FindClosestIntersection env_loop two_spheres forward_ray =
     (Some \<lparr>Hit.Position = vec 0 0 4, Hit.Normal = vec 0 0 (- 1), T = Fin 4,
            Object = ObjSphere near_sphere\<rparr>,
      Some (ObjSphere far_sphere))
   \<and> ObjSphere far_sphere \<noteq> ObjSphere near_sphere"
  by (simp add: FindClosestIntersection_def loopvar_addr_def two_spheres_def env_loop_def
      near_sphere_hit far_sphere_hit)
     (simp add: near_sphere_def far_sphere_def vec_def)

text \<open>With one variable for each iteration the same call returns the nearer sphere.\<close>

lemma FindClosestIntersection_per_iteration:
  "FindClosestIntersection env_iter two_spheres forward_ray =
     (Some \<lparr>Hit.Position = vec 0 0 4, Hit.Normal = vec 0 0 (- 1), T = Fin 4,
            Object = ObjSphere near_sphere\<rparr>,
      Some (ObjSphere near_sphere))"
  by (simp add: FindClosestIntersection_def loopvar_addr_def two_spheres_def env_iter_def
      near_sphere_hit far_sphere_hit)

subsection \<open>The terminal cases of the tracer\<close>




subsection \<open>Rays along an axis\<close>

lemmas cube_defs =
  Cube_Intersect_def Cube_hit_def NormalAt_def Cube_min_def Cube_max_def sides_def
  normals_def

text \<open>
  C5. For a ray whose direction makes the coefficients zero (the cylinder: a ray
  parallel to the axis; the cube: a direction with a zero component) \<open>Intersect\<close> is to
  report no intersection, with every division guarded, and is never to produce a value
  that is not finite. Neither method guards a division. For the ray parallel to its axis
  the cylinder divides zero by zero and returns a hit whose \<open>t\<close>, position and normal are
  NaN. The cube divides by the zero component, which gives an infinity, and returns the
  hit at \<open>t = 4\<close> for the ray through its middle.
\<close>

theorem Intersect_unguarded_division:
  "Cylinder_Intersect axis_cylinder up_ray =
     Some \<lparr>Hit.Position = \<lparr>X = NaN, Y = NaN, Z = NaN\<rparr>,
           Hit.Normal = \<lparr>X = NaN, Y = NaN, Z = NaN\<rparr>,
           T = NaN, Object = ObjCylinder axis_cylinder\<rparr>
   \<and> fdiv (fsub (X (Cube_min unit_cube)) (X (Origin axis_ray))) (X (Direction axis_ray)) = NInf
   \<and> Cube_Intersect unit_cube axis_ray =
     Some \<lparr>Hit.Position = vec 0 0 (- 1), Hit.Normal = vec 0 0 (- 1), T = Fin 4,
           Object = ObjCube unit_cube\<rparr>"
  apply (intro conjI)
    apply (simp add: Cylinder_Intersect_def axis_cylinder_def up_ray_def vector_defs)
   apply (simp add: cube_defs unit_cube_def axis_ray_def vector_defs)
  apply (simp add: cube_defs unit_cube_def axis_ray_def vector_defs)
  done

subsection \<open>A camera error in the sample loop\<close>

text \<open>
  When \<open>GetRay\<close> fails for sample \<open>k\<close> of a pixel, the loop over the samples is left
  by \<open>return\<close>.
\<close>

lemma sample_loop_error:
  "k < n \<Longrightarrow>
   GetRay (Camera (Scene r))
     (fdiv (fadd (float64_of_int x) (rnd (i + 2 * k))) (float64_of_int (Width r - 1)))
     (fdiv (fadd (float64_of_int y) (rnd (i + 2 * k + 1))) (float64_of_int (Height r - 1)))
     = Inl err \<Longrightarrow>
   sample_loop env r x y rnd n i color = None"
proof (induction n arbitrary: i k color)
  case 0
  then show ?case by simp
next
  case (Suc n)
  show ?case
  proof (cases k)
    case 0
    with Suc.prems show ?thesis by (simp add: Let_def)
  next
    case (Suc k')
    with Suc.prems have "k' < n" by simp
    moreover from Suc Suc.prems have "GetRay (Camera (Scene r))
       (fdiv (fadd (float64_of_int x) (rnd ((i + 2) + 2 * k'))) (float64_of_int (Width r - 1)))
       (fdiv (fadd (float64_of_int y) (rnd ((i + 2) + 2 * k' + 1)))
          (float64_of_int (Height r - 1)))
       = Inl err"
      by (simp add: add.assoc)
    ultimately have "sample_loop env r x y rnd n (i + 2) c = None" for c
      using Suc.IH by blast
    then show ?thesis by (simp add: Let_def split: sum.splits)
  qed
qed

lemma Render_pixel_error:
  assumes "k < nat (Samples r)"
    and "GetRay (Camera (Scene r))
           (fdiv (fadd (float64_of_int x) (rnd (2 * k))) (float64_of_int (Width r - 1)))
           (fdiv (fadd (float64_of_int y) (rnd (2 * k + 1))) (float64_of_int (Height r - 1)))
         = Inl err"
  shows "Render_pixel env r x y rnd = None"
  using sample_loop_error [of k "nat (Samples r)" r x rnd 0 y err env] assms
  by (simp add: Render_pixel_def)

text \<open>
  C4. When \<open>GetRay\<close> returns an error for one sample of a pixel, the renderer is to
  skip that one sample and still trace, average and write the remaining samples of the
  pixel. The goroutine of the pixel executes \<open>return\<close> instead: for pixel \<open>(0, 0)\<close>
  the camera fails on the first sample and would give a ray for the second, and the
  goroutine ends without tracing the second sample and without setting the pixel.
\<close>

theorem Render_pixel_aborted:
  "GetRay (Camera (Scene half_tracer)) (Fin 0) (Fin 0) = Inl (Error ''invalid projection'')
   \<and> GetRay (Camera (Scene half_tracer)) (Fin (3 / 4)) (Fin 0) =
       Inr \<lparr>Origin = vec (3 / 4) 0 (- 5), Direction = vec 0 0 1\<rparr>
   \<and> Render_pixel env_loop half_tracer 0 0 draws = None"
  using Render_pixel_error [of 0 half_tracer 0 draws 0 "Error ''invalid projection''" env_loop]
  by (simp add: half_tracer_def half_camera_def draws_def float64_of_int_def vec_def)

subsection \<open>Refraction and total internal reflection\<close>

lemma fle_not_fgt: "fle d (Fin 0) \<Longrightarrow> \<not> fgt d (Fin 0)"
  by (cases d) (simp_all add: fgt_def)

text \<open>
  The step of \<open>traceRay\<close> for a transparent material, stated for the object that
  \<open>FindClosestIntersection\<close> returns beside the hit: when the discriminant of the
  refraction formula is not positive (total internal reflection), \<open>traceRay\<close> recurses
  at \<open>depth - 1\<close> on the ray from the hit point along the reflection of the incoming
  direction, with the inside flag kept, scales the result by the transparency and adds it
  to the colour computed so far; when the discriminant is positive it recurses on the
  ray refracted by Snell's law, with the inside flag flipped. The colour computed so far
  is the local colour, plus the reflected colour when the material reflects as well.
\<close>

lemma traceRay_transparency:
  assumes "0 < depth"
    and "FindClosestIntersection env s ray = (Some hit, Some object)"
    and "fgt (Transparency (Object_Material object)) (Fin 0)"
  shows
    "(fle (Refract_discriminant (Direction ray) (Hit.Normal hit)
             (RefractiveIndex (Object_Material object))) (Fin 0) \<longrightarrow>
        traceRay env s ray depth inside =
          Color_Add (hitColor_reflected env s ray depth inside hit (Object_Material object))
            (Color_Scale
               (traceRay env s
                  \<lparr>Origin = Hit.Position hit,
                   Direction = Reflect (Direction ray) (Hit.Normal hit)\<rparr>
                  (depth - 1) inside)
               (Transparency (Object_Material object))))
     \<and> (fgt (Refract_discriminant (Direction ray) (Hit.Normal hit)
               (RefractiveIndex (Object_Material object))) (Fin 0) \<longrightarrow>
        traceRay env s ray depth inside =
          Color_Add (hitColor_reflected env s ray depth inside hit (Object_Material object))
            (Color_Scale
               (traceRay env s
                  \<lparr>Origin = Hit.Position hit,
                   Direction =
                     Vector_Subtract
                       (Vector_Scale (Direction ray) (RefractiveIndex (Object_Material object)))
                       (Vector_Scale (Hit.Normal hit)
                          (fadd (fmul (RefractiveIndex (Object_Material object))
                                   (Dot (Direction ray) (Hit.Normal hit)))
                             (fsqrt (Refract_discriminant (Direction ray) (Hit.Normal hit)
                                       (RefractiveIndex (Object_Material object))))))\<rparr>
                  (depth - 1) (\<not> inside))
               (Transparency (Object_Material object))))"
proof (intro conjI impI)
  assume tir: "fle (Refract_discriminant (Direction ray) (Hit.Normal hit)
             (RefractiveIndex (Object_Material object))) (Fin 0)"
  have r: "Ray_Refract (Hit.Position hit) ray (Hit.Normal hit)
             (RefractiveIndex (Object_Material object)) inside =
           (\<lparr>Origin = Hit.Position hit, Direction = Reflect (Direction ray) (Hit.Normal hit)\<rparr>, True)"
    using fle_not_fgt [OF tir] by (simp add: Ray_Refract_def Refract_def Ray_Reflect_def Let_def)
  show "traceRay env s ray depth inside =
          Color_Add (hitColor_reflected env s ray depth inside hit (Object_Material object))
            (Color_Scale
               (traceRay env s
                  \<lparr>Origin = Hit.Position hit,
                   Direction = Reflect (Direction ray) (Hit.Normal hit)\<rparr>
                  (depth - 1) inside)
               (Transparency (Object_Material object)))"
    using assms r
    by (simp add: traceRay.simps [of env s ray depth inside] hitColor_reflected_def Let_def)
next
  assume pos: "fgt (Refract_discriminant (Direction ray) (Hit.Normal hit)
               (RefractiveIndex (Object_Material object))) (Fin 0)"
  have r: "Ray_Refract (Hit.Position hit) ray (Hit.Normal hit)
             (RefractiveIndex (Object_Material object)) inside =
           (\<lparr>Origin = Hit.Position hit,
                   Direction =
                     Vector_Subtract
                       (Vector_Scale (Direction ray) (RefractiveIndex (Object_Material object)))
                       (Vector_Scale (Hit.Normal hit)
                          (fadd (fmul (RefractiveIndex (Object_Material object))
                                   (Dot (Direction ray) (Hit.Normal hit)))
                             (fsqrt (Refract_discriminant (Direction ray) (Hit.Normal hit)
                                       (RefractiveIndex (Object_Material object))))))\<rparr>, False)"
    using pos by (simp add: Ray_Refract_def Refract_def Let_def)
  show "traceRay env s ray depth inside =
          Color_Add (hitColor_reflected env s ray depth inside hit (Object_Material object))
            (Color_Scale
               (traceRay env s
                  \<lparr>Origin = Hit.Position hit,
                   Direction =
                     Vector_Subtract
                       (Vector_Scale (Direction ray) (RefractiveIndex (Object_Material object)))
                       (Vector_Scale (Hit.Normal hit)
                          (fadd (fmul (RefractiveIndex (Object_Material object))
                                   (Dot (Direction ray) (Hit.Normal hit)))
                             (fsqrt (Refract_discriminant (Direction ray) (Hit.Normal hit)
                                       (RefractiveIndex (Object_Material object))))))\<rparr>
                  (depth - 1) (\<not> inside))
               (Transparency (Object_Material object)))"
    using assms r
    by (simp add: traceRay.simps [of env s ray depth inside] hitColor_reflected_def Let_def)
qed

lemma glass_oblique:
  "FindClosestIntersection env_loop glass_scene oblique_ray =
     (Some \<lparr>Hit.Position = vec (3 / 4) 0 0, Hit.Normal = vec 0 0 1, T = Fin (5 / 4),
            Object = ObjPlane glass_plane\<rparr>, Some (ObjPlane glass_plane))"
  by (simp add: FindClosestIntersection_def loopvar_addr_def glass_scene_def env_loop_def
      Plane_Intersect_def glass_plane_def oblique_ray_def vector_defs)

lemma glass_straight:
  "FindClosestIntersection env_loop glass_scene back_ray =
     (Some \<lparr>Hit.Position = vec 0 0 0, Hit.Normal = vec 0 0 1, T = Fin 1,
            Object = ObjPlane glass_plane\<rparr>, Some (ObjPlane glass_plane))"
  by (simp add: FindClosestIntersection_def loopvar_addr_def glass_scene_def env_loop_def
      Plane_Intersect_def glass_plane_def back_ray_def vector_defs)

lemma glass_transparent: "fgt (Transparency (Object_Material (ObjPlane glass_plane))) (Fin 0)"
  by (simp add: glass_plane_def glass_def fgt_def)

lemma traceRay_transparency_example:
  "fle (Refract_discriminant (Direction oblique_ray) (vec 0 0 1) (Fin 2)) (Fin 0)
   \<and> traceRay env_loop glass_scene oblique_ray 1 False =
       Color_Add \<lparr>R = Fin (1 / 2), G = Fin (1 / 2), B = Fin (1 / 2)\<rparr>
         (Color_Scale
            (traceRay env_loop glass_scene
               \<lparr>Origin = vec (3 / 4) 0 0, Direction = vec (3 / 5) 0 (- 4 / 5)\<rparr> 0 False)
            (Fin (1 / 2)))
   \<and> fgt (Refract_discriminant (Direction back_ray) (vec 0 0 1) (Fin 2)) (Fin 0)
   \<and> traceRay env_loop glass_scene back_ray 1 False =
       Color_Add \<lparr>R = Fin (1 / 2), G = Fin (1 / 2), B = Fin (1 / 2)\<rparr>
         (Color_Scale
            (traceRay env_loop glass_scene
               \<lparr>Origin = vec 0 0 0, Direction = vec 0 0 (- 1)\<rparr> 0 True)
            (Fin (1 / 2)))"
  using traceRay_transparency [OF _ glass_oblique glass_transparent, of 1 False]
    traceRay_transparency [OF _ glass_straight glass_transparent, of 1 False]
  by (simp add: hitColor_reflected_def ComputeColor_def Color_Scale_def material_min_def
      glass_scene_def glass_plane_def glass_def oblique_ray_def back_ray_def
      Refract_discriminant_def Reflect_def vector_defs)

subsection \<open>A hit comes with its object\<close>

lemma FindClosest_loop_object:
  "(closestHit st \<noteq> None \<longrightarrow> (\<exists>a object. closestObject st = Some a \<and> store st a = Some object)) \<Longrightarrow>
   closestHit (FindClosest_loop env ray objects i st) \<noteq> None \<Longrightarrow>
   \<exists>a object. closestObject (FindClosest_loop env ray objects i st) = Some a
      \<and> store (FindClosest_loop env ray objects i st) a = Some object"
proof (induction objects arbitrary: i st)
  case Nil
  then show ?case by simp
next
  case (Cons object rest)
  show ?case
    using Cons.prems(2)
    apply (simp only: FindClosest_loop.simps Let_def)
    apply (rule Cons.IH)
    using Cons.prems(1) apply (auto split: option.splits)
    done
qed

lemma FindClosestIntersection_object:
  "FindClosestIntersection env s ray = (Some hit, object) \<Longrightarrow> object \<noteq> None"
  using FindClosest_loop_object [of "\<lparr>closestHit = None, closestObject = None, closestDistance = PInf,
                  store = Map.empty\<rparr>" env ray "Objects s" 0]
  by (auto simp add: FindClosestIntersection_def Let_def split: option.splits)

subsection \<open>The shading formula\<close>












subsection \<open>The slab test of the cube\<close>

lemma spec_min_Fin: "spec_min (Fin a) (Fin b) = Fin (min a b)"
  by (simp add: spec_min_def min_def)

lemma spec_max_Fin: "spec_max (Fin a) (Fin b) = Fin (max a b)"
  by (simp add: spec_max_def max_def)

lemma slab_t_Fin: "d \<noteq> 0 \<Longrightarrow> slab_t (Fin p) (Fin o') (Fin d) = Fin ((p - o') / d)"
  by (simp add: slab_t_def fsub_def)

lemma slab_logic:
  fixes A1 B1 A2 B2 A3 B3 tmn tmx :: real
  assumes "A1 \<le> B1" "A2 \<le> B2" "A3 \<le> B3"
    and "tmn = max (max A1 A2) A3" and "tmx = min (min B1 B2) B3"
  shows "(if B2 < A1 \<or> B1 < A2 then N
          else if B3 < max A1 A2 \<or> min B1 B2 < A3 then N
          else if tmn < 0 then (if tmx < 0 then N else f tmx) else f tmn) =
         (if tmx < tmn then N
          else if 0 \<le> tmn then f tmn
          else if 0 \<le> tmx then f tmx
          else N)"
proof -
  define c1 where "c1 \<longleftrightarrow> B2 < A1 \<or> B1 < A2"
  define c2 where "c2 \<longleftrightarrow> B3 < max A1 A2 \<or> min B1 B2 < A3"
  have none: "tmx < tmn \<longleftrightarrow> c1 \<or> c2"
    unfolding c1_def c2_def using assms
    by (simp add: min_less_iff_disj less_max_iff_disj) linarith
  show ?thesis
    unfolding c1_def [symmetric] c2_def [symmetric] using none by auto
qed

lemma swap_Fin:
  "(if b < a then (Fin b, Fin a) else (Fin a, Fin b)) = (Fin (min a b), Fin (max a b))"
  by (simp add: min_def max_def)

lemma if_max_Fin: "(if a < b then Fin b else Fin a) = Fin (max a b)"
  by (simp add: max_def)

lemma if_min_Fin: "(if b < a then Fin b else Fin a) = Fin (min a b)"
  by (simp add: min_def)

lemma Cube_Intersect_Fin:
  fixes x0 x1 y0 y1 z0 z1 :: real
  assumes "slab_t (X (Cube_min cube)) (X (Origin ray)) (X (Direction ray)) = Fin x0"
    and "slab_t (X (Cube_max cube)) (X (Origin ray)) (X (Direction ray)) = Fin x1"
    and "slab_t (Y (Cube_min cube)) (Y (Origin ray)) (Y (Direction ray)) = Fin y0"
    and "slab_t (Y (Cube_max cube)) (Y (Origin ray)) (Y (Direction ray)) = Fin y1"
    and "slab_t (Z (Cube_min cube)) (Z (Origin ray)) (Z (Direction ray)) = Fin z0"
    and "slab_t (Z (Cube_max cube)) (Z (Origin ray)) (Z (Direction ray)) = Fin z1"
    and "A1 = min x0 x1" "B1 = max x0 x1" "A2 = min y0 y1" "B2 = max y0 y1"
    and "A3 = min z0 z1" "B3 = max z0 z1"
    and "tmn = max (max A1 A2) A3" and "tmx = min (min B1 B2) B3"
  shows "Cube_Intersect cube ray =
     (if B2 < A1 \<or> B1 < A2 then None
      else if B3 < max A1 A2 \<or> min B1 B2 < A3 then None
      else if tmn < 0 then (if tmx < 0 then None else Some (Cube_hit cube ray (Fin tmx)))
           else Some (Cube_hit cube ray (Fin tmn)))"
  unfolding Cube_Intersect_def slab_t_def [symmetric] assms(1-6) Let_def fgt_def flt.simps
    swap_Fin case_prod_conv if_max_Fin if_min_Fin
  unfolding assms(7-14) [symmetric]
  by (rule refl)


lemma Cube_Intersect_select:
  fixes x0 x1 y0 y1 z0 z1 :: real
  assumes "slab_t (X (Cube_min cube)) (X (Origin ray)) (X (Direction ray)) = Fin x0"
    and "slab_t (X (Cube_max cube)) (X (Origin ray)) (X (Direction ray)) = Fin x1"
    and "slab_t (Y (Cube_min cube)) (Y (Origin ray)) (Y (Direction ray)) = Fin y0"
    and "slab_t (Y (Cube_max cube)) (Y (Origin ray)) (Y (Direction ray)) = Fin y1"
    and "slab_t (Z (Cube_min cube)) (Z (Origin ray)) (Z (Direction ray)) = Fin z0"
    and "slab_t (Z (Cube_max cube)) (Z (Origin ray)) (Z (Direction ray)) = Fin z1"
  shows "Cube_Intersect cube ray =
     (if fgt (spec_tmin cube ray) (spec_tmax cube ray) then None
      else if fge (spec_tmin cube ray) (Fin 0) then Some (Cube_hit cube ray (spec_tmin cube ray))
      else if fge (spec_tmax cube ray) (Fin 0) then Some (Cube_hit cube ray (spec_tmax cube ray))
      else None)"
    and "\<exists>t\<in>{x0, x1, y0, y1, z0, z1}. spec_tmin cube ray = Fin t"
    and "\<exists>t\<in>{x0, x1, y0, y1, z0, z1}. spec_tmax cube ray = Fin t"
proof -
  define A1 where "A1 = min x0 x1"
  define B1 where "B1 = max x0 x1"
  define A2 where "A2 = min y0 y1"
  define B2 where "B2 = max y0 y1"
  define A3 where "A3 = min z0 z1"
  define B3 where "B3 = max z0 z1"
  define tmn where "tmn = max (max A1 A2) A3"
  define tmx where "tmx = min (min B1 B2) B3"
  note d = A1_def B1_def A2_def B2_def A3_def B3_def tmn_def tmx_def
  have le: "A1 \<le> B1" "A2 \<le> B2" "A3 \<le> B3"
    by (simp_all add: A1_def B1_def A2_def B2_def A3_def B3_def)
  have tmin: "spec_tmin cube ray = Fin tmn"
    unfolding spec_tmin_def assms spec_min_Fin spec_max_Fin d by (rule refl)
  have tmax: "spec_tmax cube ray = Fin tmx"
    unfolding spec_tmax_def assms spec_min_Fin spec_max_Fin d by (rule refl)
  have code: "Cube_Intersect cube ray =
     (if B2 < A1 \<or> B1 < A2 then None
      else if B3 < max A1 A2 \<or> min B1 B2 < A3 then None
      else if tmn < 0 then (if tmx < 0 then None else Some (Cube_hit cube ray (Fin tmx)))
           else Some (Cube_hit cube ray (Fin tmn)))"
    by (rule Cube_Intersect_Fin [OF assms d])
  show "Cube_Intersect cube ray =
     (if fgt (spec_tmin cube ray) (spec_tmax cube ray) then None
      else if fge (spec_tmin cube ray) (Fin 0) then Some (Cube_hit cube ray (spec_tmin cube ray))
      else if fge (spec_tmax cube ray) (Fin 0) then Some (Cube_hit cube ray (spec_tmax cube ray))
      else None)"
    unfolding code tmin tmax fgt_def fge_def flt.simps fle.simps
    by (rule slab_logic [OF le tmn_def tmx_def])
  have "A1 \<in> {x0, x1}" "A2 \<in> {y0, y1}" "A3 \<in> {z0, z1}"
    "B1 \<in> {x0, x1}" "B2 \<in> {y0, y1}" "B3 \<in> {z0, z1}"
    by (auto simp add: A1_def B1_def A2_def B2_def A3_def B3_def min_def max_def)
  moreover have "tmn \<in> {A1, A2, A3}" "tmx \<in> {B1, B2, B3}"
    by (auto simp add: tmn_def tmx_def min_def max_def)
  ultimately have "tmn \<in> {x0, x1, y0, y1, z0, z1}" "tmx \<in> {x0, x1, y0, y1, z0, z1}"
    by blast+
  then show "\<exists>t\<in>{x0, x1, y0, y1, z0, z1}. spec_tmin cube ray = Fin t"
    and "\<exists>t\<in>{x0, x1, y0, y1, z0, z1}. spec_tmax cube ray = Fin t"
    using tmin tmax by blast+
qed

text \<open>The loop of \<open>NormalAt\<close> returns an index of the list, and on finite entries an index of a least entry.\<close>

lemma minIndex_loop_range:
  "minIndex_loop ss i j v = j \<or> (i \<le> minIndex_loop ss i j v \<and> minIndex_loop ss i j v < i + length ss)"
proof (induction ss arbitrary: i j v)
  case Nil
  then show ?case by simp
next
  case (Cons s ss)
  show ?case
    using Cons.IH [of "Suc i" i s] Cons.IH [of "Suc i" j v] by auto
qed

lemma minIndex_loop_least:
  fixes xs :: "real list"
  assumes "ss = drop i xs" "i \<le> length xs" "j < i" "xs ! j = v" "\<forall>k<i. v \<le> xs ! k"
  shows "minIndex_loop (map Fin ss) i j (Fin v) < length xs
     \<and> (\<forall>k<length xs. xs ! minIndex_loop (map Fin ss) i j (Fin v) \<le> xs ! k)"
  using assms
proof (induction ss arbitrary: i j v)
  case Nil
  then have "i = length xs" by simp
  with Nil show ?case by simp
next
  case (Cons s ss)
  from Cons.prems(1) have i: "i < length xs"
    by (metis drop_all leI list.distinct(1))
  from Cons.prems(1) have s: "xs ! i = s"
    by (metis i hd_drop_conv_nth list.sel(1))
  from Cons.prems(1) have ss: "ss = drop (Suc i) xs"
    by (metis drop_Suc list.sel(3) tl_drop)
  show ?case
  proof (cases "s < v")
    case True
    have "\<forall>k<Suc i. s \<le> xs ! k"
      using True Cons.prems(5) s by (auto simp add: less_Suc_eq)
    with Cons.IH [OF ss, of i s] i s True show ?thesis by simp
  next
    case False
    have "\<forall>k<Suc i. v \<le> xs ! k"
      using False Cons.prems(5) s by (auto simp add: less_Suc_eq)
    with Cons.IH [OF ss, of j v] i Cons.prems(3,4) False show ?thesis by simp
  qed
qed


lemma finite_Vector_vec: "finite_Vector v \<Longrightarrow> \<exists>x y z. v = vec x y z"
proof -
  assume "finite_Vector v"
  then obtain x y z where "X v = Fin x" "Y v = Fin y" "Z v = Fin z"
    unfolding finite_Vector_def by (metis isFin.elims(2))
  then have "v = vec x y z" by (simp add: vec_def)
  then show ?thesis by blast
qed

lemma sides_finite:
  "sides \<lparr>Cube.Center = vec cx cy cz, Length = Fin l, Cube.Mat = m\<rparr> (vec px py pz) =
     map Fin [\<bar>cx - l / 2 - px\<bar>, \<bar>cx + l / 2 - px\<bar>, \<bar>cy - l / 2 - py\<bar>,
              \<bar>cy + l / 2 - py\<bar>, \<bar>cz - l / 2 - pz\<bar>, \<bar>cz + l / 2 - pz\<bar>]"
  by (simp add: sides_def Cube_min_def Cube_max_def vector_defs)

lemma face_distance_finite:
  assumes "r < 6"
  shows "spec_face_distance \<lparr>Cube.Center = vec cx cy cz, Length = Fin l, Cube.Mat = m\<rparr>
           (normals ! r) (vec px py pz) =
         Fin ([\<bar>cx - l / 2 - px\<bar>, \<bar>cx + l / 2 - px\<bar>, \<bar>cy - l / 2 - py\<bar>,
               \<bar>cy + l / 2 - py\<bar>, \<bar>cz - l / 2 - pz\<bar>, \<bar>cz + l / 2 - pz\<bar>] ! r)"
proof -
  from assms consider "r = 0" | "r = 1" | "r = 2" | "r = 3" | "r = 4" | "r = 5"
    by linarith
  then show ?thesis
    by cases (simp_all add: spec_face_distance_def normals_def vector_defs abs_if)
qed

lemma NormalAt_finite:
  assumes "px = cx - l / 2 \<or> px = cx + l / 2 \<or> py = cy - l / 2 \<or> py = cy + l / 2
           \<or> pz = cz - l / 2 \<or> pz = cz + l / 2"
  shows "NormalAt \<lparr>Cube.Center = vec cx cy cz, Length = Fin l, Cube.Mat = m\<rparr> (vec px py pz)
           \<in> set normals
     \<and> spec_face_distance \<lparr>Cube.Center = vec cx cy cz, Length = Fin l, Cube.Mat = m\<rparr>
           (NormalAt \<lparr>Cube.Center = vec cx cy cz, Length = Fin l, Cube.Mat = m\<rparr>
              (vec px py pz)) (vec px py pz) = Fin 0"
proof -
  define xs where "xs = [\<bar>cx - l / 2 - px\<bar>, \<bar>cx + l / 2 - px\<bar>, \<bar>cy - l / 2 - py\<bar>,
              \<bar>cy + l / 2 - py\<bar>, \<bar>cz - l / 2 - pz\<bar>, \<bar>cz + l / 2 - pz\<bar>]"
  define r where "r = minIndex_loop (map Fin (drop 1 xs)) 1 0 (Fin (xs ! 0))"
  have len: "length xs = 6" by (simp add: xs_def)
  have na: "NormalAt \<lparr>Cube.Center = vec cx cy cz, Length = Fin l, Cube.Mat = m\<rparr> (vec px py pz)
      = normals ! r"
    unfolding NormalAt_def sides_finite r_def xs_def by (simp add: Let_def)
  have least: "r < length xs \<and> (\<forall>k<length xs. xs ! r \<le> xs ! k)"
    unfolding r_def by (rule minIndex_loop_least) (simp_all add: len)
  then have r6: "r < 6" using len by simp
  have "0 \<in> set xs"
    using assms by (auto simp add: xs_def)
  then obtain k where "k < length xs" "xs ! k = 0"
    by (auto simp add: in_set_conv_nth)
  with least have "xs ! r \<le> 0" by metis
  moreover have "0 \<le> xs ! r"
  proof -
    have "\<forall>x\<in>set xs. 0 \<le> x" by (simp add: xs_def)
    then show ?thesis using least nth_mem by blast
  qed
  ultimately have zero: "xs ! r = 0" by simp
  have "length normals = 6" by (simp add: normals_def)
  with r6 have "normals ! r \<in> set normals"
    by (metis nth_mem)
  moreover have "spec_face_distance \<lparr>Cube.Center = vec cx cy cz, Length = Fin l, Cube.Mat = m\<rparr>
           (normals ! r) (vec px py pz) = Fin 0"
    using face_distance_finite [OF r6, of cx cy cz l m px py pz] zero by (simp add: xs_def)
  ultimately show ?thesis by (simp add: na)
qed


lemma Cube_hit_finite:
  fixes t :: real
  assumes "dx \<noteq> 0" "dy \<noteq> 0" "dz \<noteq> 0"
    and "t \<in> {(cx - l / 2 - ox) / dx, (cx + l / 2 - ox) / dx, (cy - l / 2 - oy) / dy,
               (cy + l / 2 - oy) / dy, (cz - l / 2 - oz) / dz, (cz + l / 2 - oz) / dz}"
    and "cube = \<lparr>Cube.Center = vec cx cy cz, Length = Fin l, Cube.Mat = m\<rparr>"
    and "ray = \<lparr>Origin = vec ox oy oz, Direction = vec dx dy dz\<rparr>"
  shows "Hit.Normal (Cube_hit cube ray (Fin t)) \<in> set normals
     \<and> spec_face_distance cube (Hit.Normal (Cube_hit cube ray (Fin t)))
          (Hit.Position (Cube_hit cube ray (Fin t))) = Fin 0
     \<and> T (Cube_hit cube ray (Fin t)) = Fin t"
proof -
  have at: "At ray (Fin t) = vec (ox + dx * t) (oy + dy * t) (oz + dz * t)"
    by (simp add: assms(6) vector_defs)
  have "ox + dx * t = cx - l / 2 \<or> ox + dx * t = cx + l / 2
      \<or> oy + dy * t = cy - l / 2 \<or> oy + dy * t = cy + l / 2
      \<or> oz + dz * t = cz - l / 2 \<or> oz + dz * t = cz + l / 2"
    using assms(1-4) by auto
  from NormalAt_finite [OF this, of m]
  show ?thesis
    by (simp add: Cube_hit_def Let_def at assms(5))
qed

text \<open>
  For a cube and a ray with finite coordinates and a direction without a zero component,
  \<open>Cube.Intersect\<close> takes \<open>tmin\<close> of the common interval when it is not negative,
  else \<open>tmax\<close> when it is not negative, else it reports no hit; the normal of a hit is
  one of the six unit vectors along the axes and the hit point lies in the plane of the
  face with that normal.
\<close>

lemma Cube_Intersect_slab:
  assumes "finite_Vector (Cube.Center cube)" "isFin (Length cube)"
    and "finite_Vector (Origin ray)" "finite_Vector (Direction ray)"
    and "X (Direction ray) \<noteq> Fin 0" "Y (Direction ray) \<noteq> Fin 0" "Z (Direction ray) \<noteq> Fin 0"
  shows "Cube_Intersect cube ray =
     (if fgt (spec_tmin cube ray) (spec_tmax cube ray) then None
      else if fge (spec_tmin cube ray) (Fin 0) then Some (Cube_hit cube ray (spec_tmin cube ray))
      else if fge (spec_tmax cube ray) (Fin 0) then Some (Cube_hit cube ray (spec_tmax cube ray))
      else None)
   \<and> (Cube_Intersect cube ray = Some hit \<longrightarrow>
        Hit.Normal hit \<in> {vec (- 1) 0 0, vec 1 0 0, vec 0 (- 1) 0, vec 0 1 0,
                            vec 0 0 (- 1), vec 0 0 1}
        \<and> fle (spec_face_distance cube (Hit.Normal hit) (Hit.Position hit)) (Fin (1 / 10000)))"
proof -
  obtain cx cy cz where c: "Cube.Center cube = vec cx cy cz"
    using finite_Vector_vec [OF assms(1)] by blast
  obtain l where l: "Length cube = Fin l"
    using assms(2) by (cases "Length cube") simp_all
  obtain ox oy oz where o: "Origin ray = vec ox oy oz"
    using finite_Vector_vec [OF assms(3)] by blast
  obtain dx dy dz where d: "Direction ray = vec dx dy dz"
    using finite_Vector_vec [OF assms(4)] by blast
  have nz: "dx \<noteq> 0" "dy \<noteq> 0" "dz \<noteq> 0"
    using assms(5-7) d by (auto simp add: vec_def)
  have cube: "cube = \<lparr>Cube.Center = vec cx cy cz, Length = Fin l, Cube.Mat = Cube.Mat cube\<rparr>"
    using c l by simp
  have ray: "ray = \<lparr>Origin = vec ox oy oz, Direction = vec dx dy dz\<rparr>"
    using o d by simp
  have slabs:
    "slab_t (X (Cube_min cube)) (X (Origin ray)) (X (Direction ray)) = Fin ((cx - l / 2 - ox) / dx)"
    "slab_t (X (Cube_max cube)) (X (Origin ray)) (X (Direction ray)) = Fin ((cx + l / 2 - ox) / dx)"
    "slab_t (Y (Cube_min cube)) (Y (Origin ray)) (Y (Direction ray)) = Fin ((cy - l / 2 - oy) / dy)"
    "slab_t (Y (Cube_max cube)) (Y (Origin ray)) (Y (Direction ray)) = Fin ((cy + l / 2 - oy) / dy)"
    "slab_t (Z (Cube_min cube)) (Z (Origin ray)) (Z (Direction ray)) = Fin ((cz - l / 2 - oz) / dz)"
    "slab_t (Z (Cube_max cube)) (Z (Origin ray)) (Z (Direction ray)) = Fin ((cz + l / 2 - oz) / dz)"
    using nz by (simp_all add: slab_t_def Cube_min_def Cube_max_def c l o d vector_defs)
  note sel = Cube_Intersect_select [OF slabs]
  obtain tmn where tmn: "spec_tmin cube ray = Fin tmn"
    "tmn \<in> {(cx - l / 2 - ox) / dx, (cx + l / 2 - ox) / dx, (cy - l / 2 - oy) / dy,
               (cy + l / 2 - oy) / dy, (cz - l / 2 - oz) / dz, (cz + l / 2 - oz) / dz}"
    using sel(2) by blast
  obtain tmx where tmx: "spec_tmax cube ray = Fin tmx"
    "tmx \<in> {(cx - l / 2 - ox) / dx, (cx + l / 2 - ox) / dx, (cy - l / 2 - oy) / dy,
               (cy + l / 2 - oy) / dy, (cz - l / 2 - oz) / dz, (cz + l / 2 - oz) / dz}"
    using sel(3) by blast
  note hmin = Cube_hit_finite [OF nz tmn(2) cube ray]
  note hmax = Cube_hit_finite [OF nz tmx(2) cube ray]
  have six: "set normals = {vec (- 1) 0 0, vec 1 0 0, vec 0 (- 1) 0, vec 0 1 0,
                            vec 0 0 (- 1), vec 0 0 1}"
    by (simp add: normals_def vec_def)
  have "Cube_Intersect cube ray = Some hit \<longrightarrow>
        Hit.Normal hit \<in> set normals
        \<and> fle (spec_face_distance cube (Hit.Normal hit) (Hit.Position hit)) (Fin (1 / 10000))"
  proof
    assume "Cube_Intersect cube ray = Some hit"
    then have "hit = Cube_hit cube ray (Fin tmn) \<or> hit = Cube_hit cube ray (Fin tmx)"
      unfolding sel(1) tmn(1) tmx(1) by (auto split: if_splits)
    then show "Hit.Normal hit \<in> set normals
        \<and> fle (spec_face_distance cube (Hit.Normal hit) (Hit.Position hit)) (Fin (1 / 10000))"
      using hmin hmax by auto
  qed
  then show ?thesis
    using sel(1) six by simp
qed

lemma diagonal_hit:
  "Cube_Intersect unit_cube diagonal_ray =
     Some \<lparr>Hit.Position = vec (- 1) 0 0, Hit.Normal = vec (- 1) 0 0, T = Fin 2,
           Object = ObjCube unit_cube\<rparr>"
  by (simp add: cube_defs unit_cube_def diagonal_ray_def vector_defs)

lemma Cube_Intersect_slab_example:
  "finite_Vector (Cube.Center unit_cube) \<and> isFin (Length unit_cube)
   \<and> finite_Vector (Origin diagonal_ray) \<and> finite_Vector (Direction diagonal_ray)
   \<and> X (Direction diagonal_ray) \<noteq> Fin 0 \<and> Y (Direction diagonal_ray) \<noteq> Fin 0
   \<and> Z (Direction diagonal_ray) \<noteq> Fin 0
   \<and> spec_tmin unit_cube diagonal_ray = Fin 2
   \<and> spec_tmax unit_cube diagonal_ray = Fin 3
   \<and> Cube_Intersect unit_cube diagonal_ray =
       Some \<lparr>Hit.Position = vec (- 1) 0 0, Hit.Normal = vec (- 1) 0 0, T = Fin 2,
             Object = ObjCube unit_cube\<rparr>
   \<and> fle (spec_face_distance unit_cube (vec (- 1) 0 0) (vec (- 1) 0 0)) (Fin (1 / 10000))"
proof -
  have h: "finite_Vector (Cube.Center unit_cube)" "isFin (Length unit_cube)"
    "finite_Vector (Origin diagonal_ray)" "finite_Vector (Direction diagonal_ray)"
    "X (Direction diagonal_ray) \<noteq> Fin 0" "Y (Direction diagonal_ray) \<noteq> Fin 0"
    "Z (Direction diagonal_ray) \<noteq> Fin 0"
    by (simp_all add: finite_Vector_def unit_cube_def diagonal_ray_def vec_def)
  have t: "spec_tmin unit_cube diagonal_ray = Fin 2" "spec_tmax unit_cube diagonal_ray = Fin 3"
    by (simp_all add: spec_tmin_def spec_tmax_def spec_min_def spec_max_def slab_t_def
        Cube_min_def Cube_max_def unit_cube_def diagonal_ray_def vector_defs)
  from Cube_Intersect_slab [OF h, of "\<lparr>Hit.Position = vec (- 1) 0 0, Hit.Normal = vec (- 1) 0 0,
      T = Fin 2, Object = ObjCube unit_cube\<rparr>"]
  show ?thesis
    using h t diagonal_hit by simp
qed

text \<open>
  C9. Every hit of \<open>Cube.Intersect\<close> is to use \<open>tmin\<close> of the common interval when
  it is not negative, else \<open>tmax\<close> when it is not negative, its normal is to be one of
  the six unit vectors along the axes, and the hit point is to lie in the plane of the
  corresponding face within the epsilon. For the ray that runs in the plane \<open>x = -1\<close> of
  a face the first division is zero by zero; every comparison with the NaN is false, so
  \<open>tmin\<close> stays NaN, the test \<open>t < 0\<close> fails and the hit is returned with \<open>t\<close> NaN,
  which is not at least zero, at a position that is NaN and in the plane of no face.
\<close>

theorem Cube_Intersect_grazing:
  "Cube_Intersect unit_cube grazing_ray =
     Some \<lparr>Hit.Position = \<lparr>X = NaN, Y = NaN, Z = NaN\<rparr>, Hit.Normal = vec (- 1) 0 0,
           T = NaN, Object = ObjCube unit_cube\<rparr>
   \<and> fge NaN (Fin 0) = False
   \<and> spec_face_distance unit_cube (vec (- 1) 0 0) \<lparr>X = NaN, Y = NaN, Z = NaN\<rparr> = NaN
   \<and> fle NaN (Fin (1 / 10000)) = False"
  apply (intro conjI)
     apply (simp add: cube_defs unit_cube_def grazing_ray_def vector_defs)
    apply (simp add: fge_def)
   apply (simp add: spec_face_distance_def unit_cube_def vector_defs)
  apply simp
  done

subsection \<open>What the search for the closest intersection returns\<close>

lemma flt_irrefl: "\<not> flt x x"
  by (cases x) simp_all

lemma flt_trans: "flt x y \<Longrightarrow> flt y z \<Longrightarrow> flt x z"
  by (cases x; cases y; cases z) simp_all

lemma FindClosest_loop_hit:
  "closest_in st H \<Longrightarrow>
   closest_in (FindClosest_loop env ray objects i st) (H \<union> hits_of objects ray)"
proof (induction objects arbitrary: i st H)
  case Nil
  then show ?case by (simp add: hits_of_def)
next
  case (Cons object rest)
  define st1 where "st1 = st\<lparr>store := (store st)(loopvar_addr env i \<mapsto> object)\<rparr>"
  have st1: "closest_in st1 H"
    using Cons.prems by (simp add: closest_in_def st1_def)
  show ?case
  proof (cases "Intersect object ray")
    case None
    have eq: "hits_of (object # rest) ray = hits_of rest ray"
      using None by (auto simp add: hits_of_def)
    have "FindClosest_loop env ray (object # rest) i st = FindClosest_loop env ray rest (Suc i) st1"
      using None by (simp add: Let_def st1_def)
    then show ?thesis
      using Cons.IH [OF st1] by (simp add: eq)
  next
    case (Some hit)
    have eq: "H \<union> hits_of (object # rest) ray = insert hit H \<union> hits_of rest ray"
      using Some by (auto simp add: hits_of_def)
    show ?thesis
    proof (cases "flt (T hit) (closestDistance st)")
      case True
      define st2 where "st2 = st1\<lparr>closestHit := Some hit,
        closestObject := Some (loopvar_addr env i), closestDistance := T hit\<rparr>"
      have run: "FindClosest_loop env ray (object # rest) i st =
          FindClosest_loop env ray rest (Suc i) st2"
        using Some True by (simp add: Let_def st1_def st2_def)
      have "\<forall>h\<in>insert hit H. \<not> flt (T h) (T hit)"
        using True Cons.prems by (auto simp add: closest_in_def flt_irrefl dest: flt_trans)
      then have "closest_in st2 (insert hit H)"
        by (simp add: closest_in_def st2_def)
      from Cons.IH [OF this] show ?thesis unfolding run eq .
    next
      case False
      have run: "FindClosest_loop env ray (object # rest) i st =
          FindClosest_loop env ray rest (Suc i) st1"
        using Some False by (simp add: Let_def st1_def)
      have "closest_in st1 (insert hit H)"
        using False st1 by (auto simp add: closest_in_def st1_def)
      from Cons.IH [OF this] show ?thesis unfolding run eq .
    qed
  qed
qed

text \<open>
  The hit that \<open>FindClosestIntersection\<close> returns is a hit of one of the objects and no
  object reports a hit with a smaller \<open>t\<close>; it returns no hit when no object reports a
  hit with \<open>t\<close> below \<open>+Inf\<close>.
\<close>

lemma FindClosestIntersection_hit:
  "(fst (FindClosestIntersection env s ray) = None \<longrightarrow>
      (\<forall>h\<in>hits_of (Objects s) ray. \<not> flt (T h) PInf))
   \<and> (fst (FindClosestIntersection env s ray) = Some hit \<longrightarrow>
      hit \<in> hits_of (Objects s) ray
      \<and> (\<forall>h\<in>hits_of (Objects s) ray. \<not> flt (T h) (T hit)))"
proof -
  have "closest_in \<lparr>closestHit = None, closestObject = None, closestDistance = PInf,
      store = Map.empty\<rparr> {}"
    by (simp add: closest_in_def)
  from FindClosest_loop_hit [OF this, of env ray "Objects s" 0]
  show ?thesis
    by (auto simp add: FindClosestIntersection_def Let_def closest_in_def)
qed

lemma FindClosest_loop_per_iteration:
  assumes "PerIteration env"
  shows "points_to_hit st ray i \<Longrightarrow>
    points_to_hit (FindClosest_loop env ray objects i st) ray (i + length objects)"
proof (induction objects arbitrary: i st)
  case Nil
  then show ?case by simp
next
  case (Cons object rest)
  have "points_to_hit
     (case Intersect object ray of
        None \<Rightarrow> st\<lparr>store := (store st)(loopvar_addr env i \<mapsto> object)\<rparr>
      | Some hit \<Rightarrow>
          if flt (T hit) (closestDistance (st\<lparr>store := (store st)(loopvar_addr env i \<mapsto> object)\<rparr>))
          then st\<lparr>store := (store st)(loopvar_addr env i \<mapsto> object)\<rparr>
                 \<lparr>closestHit := Some hit, closestObject := Some (loopvar_addr env i),
                  closestDistance := T hit\<rparr>
          else st\<lparr>store := (store st)(loopvar_addr env i \<mapsto> object)\<rparr>) ray (Suc i)"
    using Cons.prems assms
    by (cases "Intersect object ray")
       (fastforce simp add: points_to_hit_def loopvar_addr_def less_Suc_eq)+
  from Cons.IH [OF this] show ?case
    by (simp add: Let_def)
qed

text \<open>
  With one variable for each iteration the object returned is an object that reported
  the hit returned.
\<close>

lemma FindClosestIntersection_per_iteration_object:
  assumes "PerIteration env" and "FindClosestIntersection env s ray = (Some hit, object)"
  shows "\<exists>obj. object = Some obj \<and> Intersect obj ray = Some hit"
proof -
  have "points_to_hit \<lparr>closestHit = None, closestObject = None, closestDistance = PInf,
      store = Map.empty\<rparr> ray 0"
    by (simp add: points_to_hit_def)
  from FindClosest_loop_per_iteration [OF assms(1) this, of "Objects s"] assms(2)
  show ?thesis
    by (auto simp add: FindClosestIntersection_def Let_def points_to_hit_def)
qed

subsection \<open>The material that the tracer shades with\<close>

lemmas glass_first_defs =
  FindClosestIntersection_def loopvar_addr_def glass_first_def env_loop_def
  Plane_Intersect_def glass_plane_def matte_plane_def back_ray_def refracted_ray_def

lemma glass_first_hit:
  "FindClosestIntersection env_loop glass_first back_ray =
     (Some \<lparr>Hit.Position = vec 0 0 0, Hit.Normal = vec 0 0 1, T = Fin 1,
            Object = ObjPlane glass_plane\<rparr>, Some (ObjPlane matte_plane))"
  by (simp add: glass_first_defs vector_defs)

lemma glass_first_refracted_hit:
  "FindClosestIntersection env_loop glass_first refracted_ray =
     (Some \<lparr>Hit.Position = vec 0 0 0, Hit.Normal = vec 0 0 1, T = Fin 0,
            Object = ObjPlane glass_plane\<rparr>, Some (ObjPlane matte_plane))"
  by (simp add: glass_first_defs vector_defs)

lemma matte_local:
  "ComputeColor env_loop matte hit glass_first ray = \<lparr>R = Fin (1 / 2), G = Fin (1 / 2), B = Fin (1 / 2)\<rparr>"
  by (simp add: ComputeColor_def glass_first_def matte_def Color_Scale_def material_min_def)

lemma glass_local:
  "ComputeColor env_loop glass hit glass_first ray = \<lparr>R = Fin (1 / 2), G = Fin (1 / 2), B = Fin (1 / 2)\<rparr>"
  by (simp add: ComputeColor_def glass_first_def glass_def Color_Scale_def material_min_def)

text \<open>At every depth above zero the colour traced is the local colour of the matte material.\<close>

lemma glass_first_trace:
  assumes "0 < depth"
  shows "traceRay env_loop glass_first back_ray depth inside =
     \<lparr>R = Fin (1 / 2), G = Fin (1 / 2), B = Fin (1 / 2)\<rparr>"
  using assms
  by (simp add: traceRay.simps [of env_loop glass_first back_ray depth inside] glass_first_hit
      matte_plane_def matte_local) (simp add: matte_def fgt_def)

lemma glass_first_refracted_trace:
  "traceRay env_loop glass_first refracted_ray 1 True =
     \<lparr>R = Fin (1 / 2), G = Fin (1 / 2), B = Fin (1 / 2)\<rparr>"
  by (simp add: traceRay.simps [of env_loop glass_first refracted_ray 1 True]
      glass_first_refracted_hit matte_plane_def matte_local) (simp add: matte_def fgt_def)

text \<open>
  C2. For every hit on a material with transparency above zero \<open>traceRay\<close> is to
  recurse at \<open>depth - 1\<close> on the refracted ray (on the internally reflected ray when the
  discriminant is not positive), scale the result by the transparency of the material
  and add it to the local colour. \<open>traceRay\<close> takes the material from the object that
  \<open>FindClosestIntersection\<close> returns beside the hit, and with one variable for the whole
  loop that object is the last of the scene, not the shape that was hit. For the
  transparent plane with the matte plane behind it the ray hits the transparent plane,
  the discriminant is positive and \<open>utility.Refract\<close> gives a refracted direction; yet
  \<open>traceRay\<close> shades with the matte material, whose transparency is zero, does not
  recurse and returns \<open>(1/2, 1/2, 1/2)\<close> at depth 2, where the local colour plus the
  scaled colour of the refracted ray is \<open>(3/4, 3/4, 3/4)\<close>.
\<close>

theorem traceRay_material_of_last_object:
  "FindClosestIntersection env_loop glass_first back_ray =
     (Some \<lparr>Hit.Position = vec 0 0 0, Hit.Normal = vec 0 0 1, T = Fin 1,
            Object = ObjPlane glass_plane\<rparr>, Some (ObjPlane matte_plane))
   \<and> Transparency (Object_Material (ObjPlane glass_plane)) = Fin (1 / 2)
   \<and> Transparency (Object_Material (ObjPlane matte_plane)) = Fin 0
   \<and> Refract (Direction back_ray) (vec 0 0 1) (RefractiveIndex glass) =
       (Some (vec 0 0 (- 1)), False)
   \<and> traceRay env_loop glass_first back_ray 2 False =
       \<lparr>R = Fin (1 / 2), G = Fin (1 / 2), B = Fin (1 / 2)\<rparr>
   \<and> Color_Add
        (ComputeColor env_loop glass
           \<lparr>Hit.Position = vec 0 0 0, Hit.Normal = vec 0 0 1, T = Fin 1,
            Object = ObjPlane glass_plane\<rparr> glass_first back_ray)
        (Color_Scale
           (traceRay env_loop glass_first \<lparr>Origin = vec 0 0 0, Direction = vec 0 0 (- 1)\<rparr> 1 True)
           (Transparency glass)) =
       \<lparr>R = Fin (3 / 4), G = Fin (3 / 4), B = Fin (3 / 4)\<rparr>"
  apply (intro conjI)
       apply (rule glass_first_hit)
      apply (simp add: glass_plane_def glass_def)
     apply (simp add: matte_plane_def matte_def)
    apply (simp add: Refract_def Refract_discriminant_def back_ray_def glass_def vector_defs)
   apply (simp add: glass_first_trace)
  apply (simp add: glass_local glass_first_refracted_trace [unfolded refracted_ray_def]
      Color_Add_def Color_Scale_def)
  apply (simp add: glass_def)
  done

text \<open>Every shape puts itself into the hit that it returns.\<close>

lemma Intersect_Object:
  assumes "Intersect object ray = Some hit"
  shows "Object hit = object"
proof (cases object)
  case (ObjSphere s)
  with assms show ?thesis
    by (auto simp add: Sphere_Intersect_def Let_def split: if_splits)
next
  case (ObjPlane p)
  with assms show ?thesis
    by (auto simp add: Plane_Intersect_def Let_def split: if_splits)
next
  case (ObjTriangle t)
  with assms show ?thesis
    by (auto simp add: Triangle_Intersect_def Let_def split: if_splits)
next
  case (ObjCylinder c)
  with assms show ?thesis
    by (auto simp add: Cylinder_Intersect_def Let_def split: if_splits)
next
  case (ObjCube c)
  have "Cube_Intersect c ray = Some hit \<Longrightarrow> \<exists>t. hit = Cube_hit c ray t"
    unfolding Cube_Intersect_def Let_def
    by (simp split: prod.splits if_splits) blast+
  with assms ObjCube show ?thesis
    by (auto simp add: Cube_hit_def Let_def)
qed

text \<open>
  With one variable for each iteration the object returned is the shape that was hit, and
  the step for a transparent material holds for the material of that shape.
\<close>

lemma traceRay_transparency_per_iteration:
  assumes "PerIteration env" and "0 < depth"
    and "fst (FindClosestIntersection env s ray) = Some hit"
    and "fgt (Transparency (Object_Material (Object hit))) (Fin 0)"
  shows
    "(fle (Refract_discriminant (Direction ray) (Hit.Normal hit)
             (RefractiveIndex (Object_Material (Object hit)))) (Fin 0) \<longrightarrow>
        traceRay env s ray depth inside =
          Color_Add (hitColor_reflected env s ray depth inside hit (Object_Material (Object hit)))
            (Color_Scale
               (traceRay env s
                  \<lparr>Origin = Hit.Position hit,
                   Direction = Reflect (Direction ray) (Hit.Normal hit)\<rparr>
                  (depth - 1) inside)
               (Transparency (Object_Material (Object hit)))))
     \<and> (fgt (Refract_discriminant (Direction ray) (Hit.Normal hit)
               (RefractiveIndex (Object_Material (Object hit)))) (Fin 0) \<longrightarrow>
        traceRay env s ray depth inside =
          Color_Add (hitColor_reflected env s ray depth inside hit (Object_Material (Object hit)))
            (Color_Scale
               (traceRay env s
                  \<lparr>Origin = Hit.Position hit,
                   Direction =
                     Vector_Subtract
                       (Vector_Scale (Direction ray)
                          (RefractiveIndex (Object_Material (Object hit))))
                       (Vector_Scale (Hit.Normal hit)
                          (fadd (fmul (RefractiveIndex (Object_Material (Object hit)))
                                   (Dot (Direction ray) (Hit.Normal hit)))
                             (fsqrt (Refract_discriminant (Direction ray) (Hit.Normal hit)
                                       (RefractiveIndex (Object_Material (Object hit)))))))\<rparr>
                  (depth - 1) (\<not> inside))
               (Transparency (Object_Material (Object hit)))))"
proof -
  obtain object where fc: "FindClosestIntersection env s ray = (Some hit, object)"
    using assms(3) by (cases "FindClosestIntersection env s ray") simp
  from FindClosestIntersection_per_iteration_object [OF assms(1) fc]
  obtain obj where obj: "object = Some obj" "Intersect obj ray = Some hit"
    by blast
  have eq: "Object hit = obj"
    by (rule Intersect_Object [OF obj(2)])
  show ?thesis
    using traceRay_transparency [OF assms(2) fc [unfolded obj(1)], of inside] assms(4)
    unfolding eq by blast
qed

end
